theory Spec2Isabelle
  imports Complex_Main
begin

section \<open>Tensors\<close>

text \<open>
  The trainer computes on torch tensors of 32-bit floats. The embedding reads every float
  as a real number, so the statements below are about the arithmetic the code denotes,
  not about rounding. An integer tensor is a list of \<open>int\<close>, a float vector a list of
  \<open>real\<close>, a float matrix a list of rows. A column tensor of shape (N, 1) is stored as
  the list of its N entries.

  Every exception the source can raise is a value of \<open>error\<close>; a function that can raise
  returns \<open>error + 'a\<close>, with \<open>Inl\<close> for the exception.
\<close>

datatype error = AssertionError | TypeError | ValueError | ZeroDivisionError | RuntimeError
  | OSError | ComplexResult

definition bind_err :: "error + 'a \<Rightarrow> ('a \<Rightarrow> error + 'b) \<Rightarrow> error + 'b" where
  "bind_err m f = (case m of Inl e \<Rightarrow> Inl e | Inr x \<Rightarrow> f x)"

text \<open>
  \<open>t.reshape(-1, 2)\<close> on a flat index tensor: rows of two entries, none for an empty
  tensor. torch rejects an odd number of entries.
\<close>

fun pairs_of :: "int list \<Rightarrow> (int \<times> int) list option" where
  "pairs_of [] = Some []"
| "pairs_of [x] = None"
| "pairs_of (x # y # r) = (case pairs_of r of None \<Rightarrow> None | Some ps \<Rightarrow> Some ((x, y) # ps))"

definition reshape_2 :: "int list \<Rightarrow> error + (int \<times> int) list" where
  "reshape_2 t = (case pairs_of t of None \<Rightarrow> Inl RuntimeError | Some ps \<Rightarrow> Inr ps)"

text \<open>\<open>.T\<close> of an (n, 2) tensor: row 0 holds the example indices, row 1 the feature indices.\<close>

definition transpose_T :: "(int \<times> int) list \<Rightarrow> int list \<times> int list" where
  "transpose_T ps = (map fst ps, map snd ps)"

text \<open>
  \<open>torch.sparse_coo_tensor(indices, values, (rows, cols))\<close>: one value per index column,
  every index inside the declared shape; torch raises otherwise (the fatal errors of spec
  section 4.1). A repeated index is allowed: \<open>to_dense\<close> adds the values of equal indices.
\<close>

record sparse_tensor =
  entries :: "((nat \<times> nat) \<times> real) list"
  rows :: nat
  cols :: nat

definition sparse_coo_tensor ::
  "int list \<times> int list \<Rightarrow> real list \<Rightarrow> nat \<times> nat \<Rightarrow> error + sparse_tensor" where
  "sparse_coo_tensor indices vals shape =
     (if length (fst indices) \<noteq> length vals \<or> length (snd indices) \<noteq> length vals
      then Inl RuntimeError
      else if list_ex (\<lambda>i. i < 0 \<or> int (fst shape) \<le> i) (fst indices)
            \<or> list_ex (\<lambda>j. j < 0 \<or> int (snd shape) \<le> j) (snd indices)
      then Inl RuntimeError
      else Inr \<lparr>entries = zip (zip (map nat (fst indices)) (map nat (snd indices))) vals,
                 rows = fst shape, cols = snd shape\<rparr>)"

definition zeros :: "nat \<Rightarrow> nat \<Rightarrow> real list list" where
  "zeros r c = replicate r (replicate c 0)"

fun scatter_add :: "real list list \<Rightarrow> ((nat \<times> nat) \<times> real) list \<Rightarrow> real list list" where
  "scatter_add m [] = m"
| "scatter_add m (((i, j), v) # es) = scatter_add (m[i := (m ! i)[j := m ! i ! j + v]]) es"

definition to_dense :: "sparse_tensor \<Rightarrow> real list list" where
  "to_dense t = scatter_add (zeros (rows t) (cols t)) (entries t)"

text \<open>
  \<open>torch.nn.Linear(in_features, out_features)\<close>: \<open>weight\<close> has shape
  (out_features, in_features), \<open>bias\<close> has out_features entries, and the layer maps a
  row \<open>x\<close> to \<open>x W\<^sup>T + b\<close>. torch raises when the width of the input is not in_features.
  The layer gives the same result on a sparse tensor as on its dense form.
\<close>

record Linear =
  weight :: "real list list"
  bias :: "real list"

definition dot :: "real list \<Rightarrow> real list \<Rightarrow> real" where
  "dot w x = sum_list (map2 (*) w x)"

definition Linear_forward :: "Linear \<Rightarrow> real list list \<Rightarrow> error + real list list" where
  "Linear_forward l X =
     (if list_ex (\<lambda>x. list_ex (\<lambda>w. length w \<noteq> length x) (weight l)) X
      then Inl RuntimeError
      else Inr (map (\<lambda>x. map2 (\<lambda>w b. dot w x + b) (weight l) (bias l)) X))"

definition Linear_sparse :: "Linear \<Rightarrow> sparse_tensor \<Rightarrow> error + real list list" where
  "Linear_sparse l t = Linear_forward l (to_dense t)"

definition clamp :: "real \<Rightarrow> real \<Rightarrow> real \<Rightarrow> real" where
  "clamp lo hi x = min (max x lo) hi"

definition sigmoid :: "real \<Rightarrow> real" where
  "sigmoid x = 1 / (1 + exp (- x))"

text \<open>\<open>torch.cat((a, b), dim=1)\<close>: rows side by side; the row counts must agree.\<close>

definition cat1 :: "real list list \<Rightarrow> real list list \<Rightarrow> error + real list list" where
  "cat1 a b = (if length a \<noteq> length b then Inl RuntimeError else Inr (map2 (@) a b))"

text \<open>
  Elementwise arithmetic of two column tensors, with torch's broadcasting: equal lengths,
  or one of the two has a single entry.
\<close>

definition broadcast2 ::
  "(real \<Rightarrow> real \<Rightarrow> real) \<Rightarrow> real list \<Rightarrow> real list \<Rightarrow> error + real list" where
  "broadcast2 f xs ys =
     (if length xs = length ys then Inr (map2 f xs ys)
      else if length xs = 1 then Inr (map (f (hd xs)) ys)
      else if length ys = 1 then Inr (map (\<lambda>x. f x (hd ys)) xs)
      else Inl RuntimeError)"

section \<open>Batches and networks\<close>

text \<open>
  Modelled from the spec: the \<open>Batch\<close> type of the dataloader module, which the networks
  import (spec section 3). \<open>stm_indices\<close> and \<open>nstm_indices\<close>
  are flat tensors of (example index, feature index) pairs, \<open>values_b\<close> holds one value
  per pair, \<open>cp\<close> and \<open>wdl\<close> are column tensors with one label per example.
\<close>

record Batch =
  size_b :: nat
  stm_indices :: "int list"
  nstm_indices :: "int list"
  values_b :: "real list"
  cp :: "real list"
  wdl :: "real list"

text \<open>
  Modelled from the spec: the feature sets of the dataloader module, the three encodings
  of spec section 3 and their CUDA counterparts, as the networks name them.
\<close>

datatype InputFeatureSet = BOARD_768 | HALF_KP | HALF_KA
  | BOARD_768_CUDA | HALF_KP_CUDA | HALF_KA_CUDA

text \<open>
  The five network classes that run on plain torch. The three CUDA classes need the
  cudasparse module, which is not among the sources; they appear in \<open>InputFeatureSet\<close>
  only.
\<close>

datatype network =
    PerspectiveNet (perspective: Linear) (out: Linear)
  | SquaredPerspectiveNet (perspective: Linear) (out: Linear)
  | DeepPerspectiveNet (perspective: Linear) (l2: Linear) (out: Linear)
  | HalfKPNet (ft: Linear) (fft: Linear) (out: Linear)
  | HalfKANet (ft: Linear) (fft: Linear) (out: Linear)

text \<open>
  The sparse board of one perspective:
  \<open>torch.sparse_coo_tensor(indices.reshape(-1, 2).T, batch.values, (batch.size, dim))\<close>.
\<close>

definition board_sparse :: "nat \<Rightarrow> nat \<Rightarrow> int list \<Rightarrow> real list \<Rightarrow> error + sparse_tensor" where
  "board_sparse n d indices vals =
     bind_err (reshape_2 indices) (\<lambda>ps. sparse_coo_tensor (transpose_T ps) vals (n, d))"

text \<open>
  The factoriser's board:
  \<open>v = torch.clone(indices.reshape(-1, 2).T); v[1][:] %= base\<close>, then a sparse tensor of
  width \<open>base\<close>. The remainder of torch has the sign of the divisor, as \<open>mod\<close> on \<open>int\<close>.
\<close>

definition v_indices :: "int \<Rightarrow> int list \<times> int list \<Rightarrow> int list \<times> int list" where
  "v_indices base indices = (fst indices, map (\<lambda>f. f mod base) (snd indices))"

definition v_board_sparse :: "nat \<Rightarrow> nat \<Rightarrow> int list \<Rightarrow> real list \<Rightarrow> error + sparse_tensor" where
  "v_board_sparse n base indices vals =
     bind_err (reshape_2 indices)
       (\<lambda>ps. sparse_coo_tensor (v_indices (int base) (transpose_T ps)) vals (n, base))"

text \<open>The feature transformer of the Board768 classes: \<open>self.perspective(board.to_dense())\<close>.\<close>

definition pov :: "Linear \<Rightarrow> nat \<Rightarrow> int list \<Rightarrow> real list \<Rightarrow> error + real list list" where
  "pov l n indices vals =
     bind_err (board_sparse n 768 indices vals) (\<lambda>t. Linear_forward l (to_dense t))"

text \<open>
  The feature transformer of the bucketed classes:
  \<open>self.ft(board_sparse) + self.fft(v_board_sparse.to_dense())\<close>. The source builds both
  main boards before the factoriser boards; an error of either is the same RuntimeError.
\<close>

definition mat_add :: "real list list \<Rightarrow> real list list \<Rightarrow> real list list" where
  "mat_add a b = map2 (map2 (+)) a b"

definition bucketed_ft ::
  "nat \<Rightarrow> nat \<Rightarrow> Linear \<Rightarrow> Linear \<Rightarrow> nat \<Rightarrow> int list \<Rightarrow> real list \<Rightarrow> error + real list list" where
  "bucketed_ft d base l_ft l_fft n indices vals =
     bind_err (board_sparse n d indices vals) (\<lambda>t.
     bind_err (v_board_sparse n base indices vals) (\<lambda>v.
     bind_err (Linear_sparse l_ft t) (\<lambda>a.
     bind_err (Linear_forward l_fft (to_dense v)) (\<lambda>b.
     Inr (mat_add a b)))))"

text \<open>The head shared by all classes: concatenate, activate, final layer, sigmoid.\<close>

definition crelu :: "real list list \<Rightarrow> real list list" where
  "crelu x = map (map (clamp 0 1)) x"

definition squared :: "real list list \<Rightarrow> real list list" where
  "squared x = map (map (\<lambda>a. a * a)) x"

definition sigmoid_out :: "Linear \<Rightarrow> real list list \<Rightarrow> error + real list" where
  "sigmoid_out l hidden = bind_err (Linear_forward l hidden) (\<lambda>y. Inr (map sigmoid (concat y)))"

fun forward :: "network \<Rightarrow> Batch \<Rightarrow> error + real list" where
  "forward (PerspectiveNet p l_out) b =
     bind_err (pov p (size_b b) (stm_indices b) (values_b b)) (\<lambda>stm_pov.
     bind_err (pov p (size_b b) (nstm_indices b) (values_b b)) (\<lambda>nstm_pov.
     bind_err (cat1 stm_pov nstm_pov) (\<lambda>c.
     sigmoid_out l_out (crelu c))))"
| "forward (SquaredPerspectiveNet p l_out) b =
     bind_err (pov p (size_b b) (stm_indices b) (values_b b)) (\<lambda>stm_pov.
     bind_err (pov p (size_b b) (nstm_indices b) (values_b b)) (\<lambda>nstm_pov.
     bind_err (cat1 stm_pov nstm_pov) (\<lambda>c.
     sigmoid_out l_out (squared (crelu c)))))"
| "forward (DeepPerspectiveNet p l_2 l_out) b =
     bind_err (pov p (size_b b) (stm_indices b) (values_b b)) (\<lambda>stm_pov.
     bind_err (pov p (size_b b) (nstm_indices b) (values_b b)) (\<lambda>nstm_pov.
     bind_err (cat1 stm_pov nstm_pov) (\<lambda>c.
     bind_err (Linear_forward l_2 (squared (crelu c))) (\<lambda>x.
     sigmoid_out l_out (crelu x)))))"
| "forward (HalfKPNet l_ft l_fft l_out) b =
     bind_err (bucketed_ft 40960 640 l_ft l_fft (size_b b) (stm_indices b) (values_b b)) (\<lambda>stm_ft.
     bind_err (bucketed_ft 40960 640 l_ft l_fft (size_b b) (nstm_indices b) (values_b b)) (\<lambda>nstm_ft.
     bind_err (cat1 stm_ft nstm_ft) (\<lambda>c.
     sigmoid_out l_out (crelu c))))"
| "forward (HalfKANet l_ft l_fft l_out) b =
     bind_err (bucketed_ft 49152 768 l_ft l_fft (size_b b) (stm_indices b) (values_b b)) (\<lambda>stm_ft.
     bind_err (bucketed_ft 49152 768 l_ft l_fft (size_b b) (nstm_indices b) (values_b b)) (\<lambda>nstm_ft.
     bind_err (cat1 stm_ft nstm_ft) (\<lambda>c.
     sigmoid_out l_out (crelu c))))"

fun input_feature_set :: "network \<Rightarrow> InputFeatureSet" where
  "input_feature_set (PerspectiveNet p l_out) = BOARD_768"
| "input_feature_set (SquaredPerspectiveNet p l_out) = BOARD_768"
| "input_feature_set (DeepPerspectiveNet p l_2 l_out) = BOARD_768"
| "input_feature_set (HalfKPNet l_ft l_fft l_out) = HALF_KP"
| "input_feature_set (HalfKANet l_ft l_fft l_out) = HALF_KA"


section \<open>The trainer\<close>

subsection \<open>Weight clipping\<close>

text \<open>
  \<open>WeightClipper.__call__\<close>: a module with a \<open>weight\<close> attribute gets its weight clamped
  to \<open>[-1.98, 1.98]\<close>; nothing else of the module is written. \<open>model.apply(clipper)\<close>
  calls the clipper on every child layer and on the network module itself; the network
  module has no \<open>weight\<close> attribute, so the clipper leaves it as it is.
\<close>

definition WeightClipper_call :: "Linear \<Rightarrow> Linear" where
  "WeightClipper_call l = l\<lparr>weight := map (map (clamp (- 1.98) 1.98)) (weight l)\<rparr>"

fun apply_layers :: "(Linear \<Rightarrow> Linear) \<Rightarrow> network \<Rightarrow> network" where
  "apply_layers fn (PerspectiveNet p l_out) = PerspectiveNet (fn p) (fn l_out)"
| "apply_layers fn (SquaredPerspectiveNet p l_out) = SquaredPerspectiveNet (fn p) (fn l_out)"
| "apply_layers fn (DeepPerspectiveNet p l_2 l_out) = DeepPerspectiveNet (fn p) (fn l_2) (fn l_out)"
| "apply_layers fn (HalfKPNet l_ft l_fft l_out) = HalfKPNet (fn l_ft) (fn l_fft) (fn l_out)"
| "apply_layers fn (HalfKANet l_ft l_fft l_out) = HalfKANet (fn l_ft) (fn l_fft) (fn l_out)"

definition apply_clipper :: "network \<Rightarrow> network" where
  "apply_clipper m = apply_layers WeightClipper_call m"

fun layers :: "network \<Rightarrow> Linear list" where
  "layers (PerspectiveNet p l_out) = [p, l_out]"
| "layers (SquaredPerspectiveNet p l_out) = [p, l_out]"
| "layers (DeepPerspectiveNet p l_2 l_out) = [p, l_2, l_out]"
| "layers (HalfKPNet l_ft l_fft l_out) = [l_ft, l_fft, l_out]"
| "layers (HalfKANet l_ft l_fft l_out) = [l_ft, l_fft, l_out]"

subsection \<open>Learning-rate schedulers\<close>

text \<open>
  The two schedulers of \<open>torch.optim.lr_scheduler\<close> that \<open>main\<close> builds, by the recurrence
  of the library: \<open>step()\<close> increments \<open>last_epoch\<close> to \<open>k\<close> and then sets the learning rate.
  \<open>ExponentialLR\<close> multiplies it by \<open>gamma\<close>; \<open>StepLR\<close> multiplies it by \<open>gamma\<close> when
  \<open>k % step_size == 0\<close>, which raises for a step size of zero.
  \<open>ExponentialLR_complex\<close> is an \<open>ExponentialLR\<close> whose \<open>gamma\<close> is a complex number (see
  \<open>py_root\<close> below): torch builds it and the loop runs with it, and its first step makes
  the learning rate complex. The reals of this theory stop at that step, with
  \<open>ComplexResult\<close>.
\<close>

datatype scheduler = ExponentialLR real | ExponentialLR_complex | StepLR int real

fun scheduler_step :: "scheduler \<Rightarrow> nat \<Rightarrow> real \<Rightarrow> error + real" where
  "scheduler_step (ExponentialLR gamma) k rate = Inr (if k = 0 then rate else rate * gamma)"
| "scheduler_step ExponentialLR_complex k rate = (if k = 0 then Inr rate else Inl ComplexResult)"
| "scheduler_step (StepLR step_size gamma) k rate =
     (if k = 0 then Inr rate
      else if step_size = 0 then Inl ZeroDivisionError
      else if int k mod step_size \<noteq> 0 then Inr rate
      else Inr (rate * gamma))"

subsection \<open>The training loop\<close>

text \<open>
  What the loop does to the outside, in the order it does it: the epoch report it prints,
  the checkpoint and the JSON export it writes, the scheduler step, the optimizer step on
  a batch, the progress report and the update of the train log.
\<close>

datatype effect =
    EpochReport int real real
  | SaveCheckpoint string int network
  | ExportJson string network
  | SchedulerStep
  | OptimizerStep Batch
  | ProgressReport nat real
  | TrainLogUpdate real

text \<open>The reports of the branch \<open>if iter_since_log * batch.size > LOG_ITERS\<close>.\<close>

fun is_progress :: "effect \<Rightarrow> bool" where
  "is_progress (ProgressReport n x) = True"
| "is_progress (TrainLogUpdate x) = True"
| "is_progress e = False"

text \<open>
  The local variables of \<open>train\<close>, with the network, the optimizer's own state (the moments
  of AdamW), its learning rate and the scheduler's counter. \<open>start_time\<close> is not kept: the
  clock is outside the program, and each read brings the seconds elapsed since
  \<open>start_time\<close>.
\<close>

record 'o train_state =
  model :: network
  optimizer :: 'o
  lr :: real
  last_epoch :: nat
  running_loss :: real
  iterations :: nat
  loss_since_log :: real
  iter_since_log :: nat
  fens :: nat
  epoch :: int
  effects :: "effect list"

text \<open>The arguments of \<open>train\<close> that stay fixed during the run.\<close>

record train_cfg =
  cfg_scheduler :: scheduler
  cfg_wdl :: real
  cfg_scale :: real
  cfg_epochs :: int
  cfg_save_epochs :: int
  cfg_train_id :: string
  cfg_train_log :: bool

text \<open>
  One call of \<open>dataloader.read_batch(DEVICE)\<close>, a blocking call of the Batch Source, with
  what else the iteration takes from outside the program: the clock reading
  \<open>time() - start_time\<close>, and what the file system does to a checkpoint written in that
  iteration, the exception that \<open>torch.save\<close> raises and the one that \<open>open\<close> or
  \<open>json.dump\<close> raises, \<open>None\<close> when the write goes through.
\<close>

record read =
  new_epoch :: bool
  batch :: Batch
  elapsed :: real
  save_error :: "error option"
  export_error :: "error option"

text \<open>
  \<open>optimizer.zero_grad(); loss.backward(); optimizer.step()\<close> is torch's: from its own state,
  the learning rate, the network, the batch and the target it gives its new state and the
  updated network. The loop is stated for every such function.
\<close>

type_synonym 'o optimizer_step = "'o \<Rightarrow> real \<Rightarrow> network \<Rightarrow> Batch \<Rightarrow> real list \<Rightarrow> 'o \<times> network"

definition LOG_ITERS :: nat where
  "LOG_ITERS = 10000000"

text \<open>\<open>expected = torch.sigmoid(batch.cp / scale) * (1 - wdl) + batch.wdl * wdl\<close>\<close>

definition expected_target :: "real \<Rightarrow> real \<Rightarrow> Batch \<Rightarrow> error + real list" where
  "expected_target w sc b =
     broadcast2 (+) (map (\<lambda>c. sigmoid (c / sc) * (1 - w)) (cp b)) (map (\<lambda>y. y * w) (wdl b))"

text \<open>\<open>loss = torch.mean((prediction - expected) ** 2)\<close>\<close>

definition mse :: "real list \<Rightarrow> real list \<Rightarrow> error + real" where
  "mse prediction expected =
     bind_err (broadcast2 (-) prediction expected)
       (\<lambda>d. Inr (sum_list (map (\<lambda>x. x ^ 2) d) / real (length d)))"

text \<open>
  The branch \<open>if epoch % save_epochs == 0:\<close>, the checkpoint written by \<open>torch.save\<close> and then
  the export written by \<open>json.dump\<close>, both into the directory \<open>nn\<close>; either can raise.
\<close>

definition save_checkpoint ::
  "train_cfg \<Rightarrow> read \<Rightarrow> int \<Rightarrow> 'o train_state \<Rightarrow> error + 'o train_state" where
  "save_checkpoint cfg r e st =
     (case save_error r of
        Some x \<Rightarrow> Inl x
      | None \<Rightarrow>
          (case export_error r of
             Some x \<Rightarrow> Inl x
           | None \<Rightarrow>
               Inr (st\<lparr>effects := effects st @
                          [SaveCheckpoint (cfg_train_id cfg) e (model st),
                           ExportJson (cfg_train_id cfg) (model st)]\<rparr>)))"

text \<open>
  The branch \<open>if new_epoch:\<close>. The report divides by \<open>iterations\<close> and by the elapsed time,
  the checkpoint test takes \<open>epoch % save_epochs\<close>: Python raises ZeroDivisionError on a
  zero divisor, before anything is printed or saved. The scheduler is stepped after the
  checkpoint, so a write that raises leaves it unstepped.
\<close>

definition epoch_end :: "train_cfg \<Rightarrow> read \<Rightarrow> 'o train_state \<Rightarrow> error + 'o train_state" where
  "epoch_end cfg r st =
     (let e = epoch st + 1 in
      if iterations st = 0 \<or> elapsed r = 0 then Inl ZeroDivisionError
      else
        let st1 = st\<lparr>epoch := e,
                     effects := effects st @
                       [EpochReport e (running_loss st / real (iterations st))
                          (real (fens st) / elapsed r)],
                     running_loss := 0, iterations := 0, fens := 0\<rparr>
        in if cfg_save_epochs cfg = 0 then Inl ZeroDivisionError
        else
          bind_err (if e mod cfg_save_epochs cfg = 0 then save_checkpoint cfg r e st1
                    else Inr st1) (\<lambda>st2.
          bind_err (scheduler_step (cfg_scheduler cfg) (last_epoch st2 + 1) (lr st2))
            (\<lambda>rate. Inr (st2\<lparr>lr := rate, last_epoch := last_epoch st2 + 1,
                               effects := effects st2 @ [SchedulerStep]\<rparr>))))"

text \<open>
  Forward pass, target, loss, optimizer step, weight clipping, and the counters. The
  forward pass raises on a malformed batch; the clipper is the statement right after the
  optimizer step.
\<close>

definition train_batch ::
  "'o optimizer_step \<Rightarrow> train_cfg \<Rightarrow> Batch \<Rightarrow> 'o train_state \<Rightarrow> error + 'o train_state" where
  "train_batch opt cfg b st =
     bind_err (forward (model st) b) (\<lambda>prediction.
     bind_err (expected_target (cfg_wdl cfg) (cfg_scale cfg) b) (\<lambda>expected.
     bind_err (mse prediction expected) (\<lambda>loss.
       let stepped = opt (optimizer st) (lr st) (model st) b expected in
       Inr (st\<lparr>model := apply_clipper (snd stepped),
                optimizer := fst stepped,
                effects := effects st @ [OptimizerStep b],
                running_loss := running_loss st + loss,
                loss_since_log := loss_since_log st + loss,
                iterations := iterations st + 1,
                iter_since_log := iter_since_log st + 1,
                fens := fens st + size_b b\<rparr>))))"

text \<open>The branch \<open>if iter_since_log * batch.size > LOG_ITERS:\<close>.\<close>

definition periodic_log :: "train_cfg \<Rightarrow> Batch \<Rightarrow> 'o train_state \<Rightarrow> 'o train_state" where
  "periodic_log cfg b st =
     (if iter_since_log st * size_b b > LOG_ITERS
      then let loss = loss_since_log st / real (iter_since_log st) in
        st\<lparr>effects := effects st @ [ProgressReport (iterations st * size_b b) loss]
                        @ (if cfg_train_log cfg then [TrainLogUpdate loss] else []),
           iter_since_log := 0, loss_since_log := 0\<rparr>
      else st)"

text \<open>One pass through the body of \<open>while epoch < epochs\<close>, for one read.\<close>

definition train_iter ::
  "'o optimizer_step \<Rightarrow> train_cfg \<Rightarrow> read \<Rightarrow> 'o train_state \<Rightarrow> error + 'o train_state" where
  "train_iter opt cfg r st =
     bind_err (if new_epoch r then epoch_end cfg r st else Inr st) (\<lambda>st1.
     bind_err (train_batch opt cfg (batch r) st1) (\<lambda>st2.
     Inr (periodic_log cfg (batch r) st2)))"

text \<open>
  The loop over the reads the Batch Source has delivered so far. It ends as \<open>Finished\<close>
  when the test \<open>epoch < epochs\<close> fails, as \<open>Waiting\<close> when the loop would read again and
  the list is used up, and with the exception of the iteration that raised.
\<close>

datatype 'o outcome = Finished "'o train_state" | Waiting "'o train_state"

fun train_loop ::
  "'o optimizer_step \<Rightarrow> train_cfg \<Rightarrow> 'o train_state \<Rightarrow> read list \<Rightarrow> error + 'o outcome" where
  "train_loop opt cfg st [] =
     (if epoch st < cfg_epochs cfg then Inr (Waiting st) else Inr (Finished st))"
| "train_loop opt cfg st (r # rs) =
     (if epoch st < cfg_epochs cfg
      then bind_err (train_iter opt cfg r st) (\<lambda>st'. train_loop opt cfg st' rs)
      else Inr (Finished st))"

fun outcome_state :: "'o outcome \<Rightarrow> 'o train_state" where
  "outcome_state (Finished st) = st"
| "outcome_state (Waiting st) = st"

text \<open>The locals of \<open>train\<close> before the loop.\<close>

definition train_init :: "network \<Rightarrow> 'o \<Rightarrow> real \<Rightarrow> 'o train_state" where
  "train_init m opt_state rate =
     \<lparr>model = m, optimizer = opt_state, lr = rate, last_epoch = 0, running_loss = 0,
      iterations = 0, loss_since_log = 0, iter_since_log = 0, fens = 0, epoch = 0,
      effects = []\<rparr>"

definition train ::
  "'o optimizer_step \<Rightarrow> network \<Rightarrow> 'o \<Rightarrow> real \<Rightarrow> train_cfg \<Rightarrow> read list \<Rightarrow> error + 'o outcome" where
  "train opt m opt_state rate cfg reads = train_loop opt cfg (train_init m opt_state rate) reads"


subsection \<open>The entry point\<close>

text \<open>
  The command line as \<open>argparse\<close> returns it: an option without a default is \<open>None\<close> when
  it is not given.
\<close>

record args =
  arg_data_root :: "string option"
  arg_train_id :: "string option"
  arg_lr :: "real option"
  arg_lr_end :: "real option"
  arg_lr_drop :: "int option"
  arg_epochs :: "int option"
  arg_batch_size :: int
  arg_wdl :: real
  arg_wdl_drop :: "real option"
  arg_scale :: "real option"
  arg_save_epochs :: int
  arg_resume :: "string option"

text \<open>
  What \<open>main\<close> takes from outside the program: the random initial entries of a new layer,
  by the layer's name, and what \<open>torch.load\<close> finds at a path (the saved layers by name, or
  the exception it raises).
\<close>

record torch_env =
  rand_weight :: "string \<Rightarrow> nat \<Rightarrow> nat \<Rightarrow> real"
  rand_bias :: "string \<Rightarrow> nat \<Rightarrow> real"
  torch_load :: "string \<Rightarrow> error + (string \<times> Linear) list"

definition Linear_new :: "torch_env \<Rightarrow> string \<Rightarrow> nat \<Rightarrow> nat \<Rightarrow> Linear" where
  "Linear_new env name in_features out_features =
     \<lparr>weight = map (\<lambda>row. map (rand_weight env name row) [0..<in_features]) [0..<out_features],
      bias = map (rand_bias env name) [0..<out_features]\<rparr>"

text \<open>\<open>SquaredPerspectiveNet.__init__(ft_out)\<close>\<close>

definition SquaredPerspectiveNet_new :: "torch_env \<Rightarrow> nat \<Rightarrow> network" where
  "SquaredPerspectiveNet_new env ft_out =
     SquaredPerspectiveNet (Linear_new env ''perspective'' 768 ft_out)
       (Linear_new env ''out'' (ft_out * 2) 1)"

text \<open>
  \<open>model.load_state_dict(state)\<close>, strict as by default: the saved names are the layers of
  the network, no more and no fewer, and each saved layer has the shape of the layer it
  replaces; torch raises otherwise. The class of the network that was saved is not part
  of a state dict.
\<close>

definition same_shape :: "Linear \<Rightarrow> Linear \<Rightarrow> bool" where
  "same_shape a b =
     (map length (weight a) = map length (weight b) \<and> length (bias a) = length (bias b))"

definition sd_get :: "(string \<times> Linear) list \<Rightarrow> string \<Rightarrow> Linear \<Rightarrow> error + Linear" where
  "sd_get sd name l =
     (case map_of sd name of
        None \<Rightarrow> Inl RuntimeError
      | Some l' \<Rightarrow> if same_shape l' l then Inr l' else Inl RuntimeError)"

definition sd_names_in :: "(string \<times> Linear) list \<Rightarrow> string list \<Rightarrow> bool" where
  "sd_names_in sd names = list_all (\<lambda>k. k \<in> set names) (map fst sd)"

fun load_state_dict :: "network \<Rightarrow> (string \<times> Linear) list \<Rightarrow> error + network" where
  "load_state_dict (PerspectiveNet p l_out) sd =
     (if \<not> sd_names_in sd [''perspective'', ''out''] then Inl RuntimeError
      else bind_err (sd_get sd ''perspective'' p) (\<lambda>p'.
           bind_err (sd_get sd ''out'' l_out) (\<lambda>o'. Inr (PerspectiveNet p' o'))))"
| "load_state_dict (SquaredPerspectiveNet p l_out) sd =
     (if \<not> sd_names_in sd [''perspective'', ''out''] then Inl RuntimeError
      else bind_err (sd_get sd ''perspective'' p) (\<lambda>p'.
           bind_err (sd_get sd ''out'' l_out) (\<lambda>o'. Inr (SquaredPerspectiveNet p' o'))))"
| "load_state_dict (DeepPerspectiveNet p l_2 l_out) sd =
     (if \<not> sd_names_in sd [''perspective'', ''l2'', ''out''] then Inl RuntimeError
      else bind_err (sd_get sd ''perspective'' p) (\<lambda>p'.
           bind_err (sd_get sd ''l2'' l_2) (\<lambda>l'.
           bind_err (sd_get sd ''out'' l_out) (\<lambda>o'. Inr (DeepPerspectiveNet p' l' o')))))"
| "load_state_dict (HalfKPNet l_ft l_fft l_out) sd =
     (if \<not> sd_names_in sd [''ft'', ''fft'', ''out''] then Inl RuntimeError
      else bind_err (sd_get sd ''ft'' l_ft) (\<lambda>a.
           bind_err (sd_get sd ''fft'' l_fft) (\<lambda>f.
           bind_err (sd_get sd ''out'' l_out) (\<lambda>o'. Inr (HalfKPNet a f o')))))"
| "load_state_dict (HalfKANet l_ft l_fft l_out) sd =
     (if \<not> sd_names_in sd [''ft'', ''fft'', ''out''] then Inl RuntimeError
      else bind_err (sd_get sd ''ft'' l_ft) (\<lambda>a.
           bind_err (sd_get sd ''fft'' l_fft) (\<lambda>f.
           bind_err (sd_get sd ''out'' l_out) (\<lambda>o'. Inr (HalfKANet a f o')))))"

text \<open>
  \<open>gamma = (args.lr_end / args.lr) ** (1 / args.epochs)\<close> in Python's float arithmetic:
  both divisions raise on a zero divisor, and \<open>0.0\<close> to a negative power raises. A negative
  base with a fractional exponent gives a complex number in Python, without raising:
  the result is then \<open>None\<close>, and \<open>Some\<close> of the real number otherwise.
\<close>

definition py_root :: "real \<Rightarrow> int \<Rightarrow> error + real option" where
  "py_root ratio n =
     (if n = 0 then Inl ZeroDivisionError
      else if 0 < ratio then Inr (Some (ratio powr (1 / real_of_int n)))
      else if ratio = 0 then (if n < 0 then Inl ZeroDivisionError else Inr (Some 0))
      else if n = 1 then Inr (Some ratio)
      else if n = - 1 then Inr (Some (1 / ratio))
      else Inr None)"

definition exponential_gamma :: "real \<Rightarrow> real \<Rightarrow> int option \<Rightarrow> error + real option" where
  "exponential_gamma rate rate_end eps =
     (if rate = 0 then Inl ZeroDivisionError
      else case eps of None \<Rightarrow> Inl TypeError | Some n \<Rightarrow> py_root (rate_end / rate) n)"

text \<open>The \<open>if args.lr_end is not None: ... elif args.lr_drop is not None: ... else: ...\<close> of \<open>main\<close>.\<close>

definition choose_scheduler :: "args \<Rightarrow> real \<Rightarrow> error + scheduler" where
  "choose_scheduler a rate =
     (case arg_lr_end a of
        Some rate_end \<Rightarrow>
          bind_err (exponential_gamma rate rate_end (arg_epochs a))
            (\<lambda>gamma. case gamma of
                       Some g \<Rightarrow> Inr (ExponentialLR g)
                     | None \<Rightarrow> Inr ExponentialLR_complex)
      | None \<Rightarrow>
          (case arg_lr_drop a of
             Some d \<Rightarrow> Inr (StepLR d 0.1)
           | None \<Rightarrow> Inr (ExponentialLR 1.0)))"

text \<open>
  \<open>main\<close> up to the call of \<open>train\<close>: the network, the feature set and batch size given to
  the \<open>BatchLoader\<close>, the learning rate given to AdamW, and the arguments of \<open>train\<close>.
  \<open>pathlib.Path(None)\<close>, AdamW with no learning rate and the loop test \<open>epoch < None\<close>
  raise TypeError; AdamW rejects a negative learning rate with ValueError.
\<close>

record run_setup =
  s_model :: network
  s_feature_set :: InputFeatureSet
  s_batch_size :: int
  s_lr :: real
  s_cfg :: train_cfg

definition main_setup :: "args \<Rightarrow> torch_env \<Rightarrow> error + run_setup" where
  "main_setup a env =
     (case arg_train_id a of None \<Rightarrow> Inl AssertionError | Some train_id \<Rightarrow>
      case arg_scale a of None \<Rightarrow> Inl AssertionError | Some sc \<Rightarrow>
      bind_err
        (case arg_resume a of
           None \<Rightarrow> Inr (SquaredPerspectiveNet_new env 768)
         | Some path \<Rightarrow>
             bind_err (torch_load env path) (load_state_dict (SquaredPerspectiveNet_new env 768)))
        (\<lambda>m.
      case arg_data_root a of None \<Rightarrow> Inl TypeError | Some data_root \<Rightarrow>
      case arg_lr a of None \<Rightarrow> Inl TypeError | Some rate \<Rightarrow>
      if rate < 0 then Inl ValueError
      else bind_err (choose_scheduler a rate) (\<lambda>sched.
      case arg_epochs a of None \<Rightarrow> Inl TypeError | Some eps \<Rightarrow>
      Inr \<lparr>s_model = m, s_feature_set = input_feature_set m,
            s_batch_size = arg_batch_size a, s_lr = rate,
            s_cfg = \<lparr>cfg_scheduler = sched, cfg_wdl = arg_wdl a, cfg_scale = sc,
                      cfg_epochs = eps, cfg_save_epochs = arg_save_epochs a,
                      cfg_train_id = train_id, cfg_train_log = True\<rparr>\<rparr>)))"

definition main ::
  "'o optimizer_step \<Rightarrow> 'o \<Rightarrow> args \<Rightarrow> torch_env \<Rightarrow> read list \<Rightarrow> error + 'o outcome" where
  "main opt opt_state a env reads =
     bind_err (main_setup a env)
       (\<lambda>s. train opt (s_model s) opt_state (s_lr s) (s_cfg s) reads)"

section \<open>Notions of the specification\<close>

text \<open>
  A layer of the declared shape: \<open>n_out\<close> weight rows of \<open>n_in\<close> entries and \<open>n_out\<close> bias
  entries.
\<close>

definition wf_Linear :: "nat \<Rightarrow> nat \<Rightarrow> Linear \<Rightarrow> bool" where
  "wf_Linear n_in n_out l =
     (length (weight l) = n_out \<and> length (bias l) = n_out
      \<and> list_all (\<lambda>w. length w = n_in) (weight l))"

text \<open>
  The invariant of a batch perspective (spec section 3): a flat list of
  (example, feature) pairs, one value per pair, every example index below the batch size
  and every feature index below the input dimension. \<open>active\<close> lists the features with
  their values.
\<close>

fun in_range :: "nat \<Rightarrow> nat \<Rightarrow> int list \<Rightarrow> bool" where
  "in_range n d [] = True"
| "in_range n d [x] = False"
| "in_range n d (e # f # r) = (0 \<le> e \<and> e < int n \<and> 0 \<le> f \<and> f < int d \<and> in_range n d r)"

definition valid_perspective :: "nat \<Rightarrow> nat \<Rightarrow> int list \<Rightarrow> real list \<Rightarrow> bool" where
  "valid_perspective n d idx vals =
     (length idx = 2 * length vals \<and> in_range n d idx)"

fun active :: "int list \<Rightarrow> real list \<Rightarrow> ((nat \<times> nat) \<times> real) list" where
  "active (e # f # r) (v # vs) = ((nat e, nat f), v) # active r vs"
| "active idx vals = []"

text \<open>
  The contract of the feature transformer (spec section 4.1): row \<open>i\<close> of the output is the
  sum, over the features active in example \<open>i\<close>, of the feature's weight row times its value,
  plus the bias. The weight row of feature \<open>f\<close> is column \<open>f\<close> of torch's \<open>weight\<close>, so
  entry \<open>k\<close> of the output row takes \<open>w ! f\<close> from the \<open>k\<close>-th row \<open>w\<close> of \<open>weight\<close>.
\<close>

definition weight_row :: "Linear \<Rightarrow> nat \<Rightarrow> real list" where
  "weight_row l f = map (\<lambda>w. w ! f) (weight l)"

definition gather_sum :: "Linear \<Rightarrow> nat \<Rightarrow> ((nat \<times> nat) \<times> real) list \<Rightarrow> real list list" where
  "gather_sum l n es =
     map (\<lambda>i. map2 (\<lambda>w b. sum_list (map (\<lambda>((e, f), v). if e = i then w ! f * v else 0) es) + b)
                 (weight l) (bias l)) [0..<n]"

text \<open>The factoriser sees every feature at its index modulo the base dimension.\<close>

definition folded :: "nat \<Rightarrow> ((nat \<times> nat) \<times> real) list \<Rightarrow> ((nat \<times> nat) \<times> real) list" where
  "folded base es = map (\<lambda>((e, f), v). ((e, f mod base), v)) es"

text \<open>
  Modelled from the spec: folding the factoriser into the main table (spec sections 4.1
  and 8), which no source file implements. Each main-table row gets its factoriser row
  added: the row of feature \<open>f\<close> is column \<open>f\<close> of \<open>ft.weight\<close>, its factoriser row is column
  \<open>f mod base\<close> of \<open>fft.weight\<close>. Evaluating with the factoriser removed is the forward pass
  with a factoriser layer that contributes nothing.
\<close>

definition fold_rows :: "nat \<Rightarrow> Linear \<Rightarrow> Linear \<Rightarrow> Linear" where
  "fold_rows base l_ft l_fft =
     l_ft\<lparr>weight := map2 (\<lambda>w v. map (\<lambda>f. w ! f + v ! (f mod base)) [0..<length w])
                        (weight l_ft) (weight l_fft)\<rparr>"

text \<open>
  Modelled from the spec: a layer that contributes nothing, for "evaluating with the
  factorizer removed" (spec section 8).
\<close>

definition zero_layer :: "Linear \<Rightarrow> Linear" where
  "zero_layer l = \<lparr>weight = map (map (\<lambda>x. 0)) (weight l), bias = map (\<lambda>x. 0) (bias l)\<rparr>"

text \<open>
  Modelled from the spec: the fold on a network, "each main-table row += its corresponding
  factorizer row" (spec section 4.1), with the base dimension of the network's encoding.
\<close>

fun fold_factoriser :: "network \<Rightarrow> network" where
  "fold_factoriser (HalfKPNet l_ft l_fft l_out) = HalfKPNet (fold_rows 640 l_ft l_fft) l_fft l_out"
| "fold_factoriser (HalfKANet l_ft l_fft l_out) = HalfKANet (fold_rows 768 l_ft l_fft) l_fft l_out"
| "fold_factoriser m = m"

text \<open>
  Modelled from the spec: the network "with the factorizer removed" (spec section 8).
\<close>

fun remove_factoriser :: "network \<Rightarrow> network" where
  "remove_factoriser (HalfKPNet l_ft l_fft l_out) = HalfKPNet l_ft (zero_layer l_fft) l_out"
| "remove_factoriser (HalfKANet l_ft l_fft l_out) = HalfKANet l_ft (zero_layer l_fft) l_out"
| "remove_factoriser m = m"

text \<open>
  The amended fold: besides the rows, the factoriser's bias is added to the bias of the
  main table. The fold of the spec does not mention the bias.
\<close>

definition fold_bias :: "Linear \<Rightarrow> Linear \<Rightarrow> Linear" where
  "fold_bias l_ft l_fft = l_ft\<lparr>bias := map2 (+) (bias l_ft) (bias l_fft)\<rparr>"

text \<open>The amended fold on a network.\<close>

fun fold_factoriser_with_bias :: "network \<Rightarrow> network" where
  "fold_factoriser_with_bias (HalfKPNet l_ft l_fft l_out) =
     HalfKPNet (fold_bias (fold_rows 640 l_ft l_fft) l_fft) l_fft l_out"
| "fold_factoriser_with_bias (HalfKANet l_ft l_fft l_out) =
     HalfKANet (fold_bias (fold_rows 768 l_ft l_fft) l_fft) l_fft l_out"
| "fold_factoriser_with_bias m = m"

text \<open>The shapes the constructors of the bucketed networks give their layers.\<close>

fun wf_bucketed :: "nat \<Rightarrow> network \<Rightarrow> bool" where
  "wf_bucketed ft_out (HalfKPNet l_ft l_fft l_out) =
     (wf_Linear 40960 ft_out l_ft \<and> wf_Linear 640 ft_out l_fft)"
| "wf_bucketed ft_out (HalfKANet l_ft l_fft l_out) =
     (wf_Linear 49152 ft_out l_ft \<and> wf_Linear 768 ft_out l_fft)"
| "wf_bucketed ft_out m = False"

text \<open>Every weight entry of a layer lies in \<open>[-1.98, 1.98]\<close>.\<close>

definition weights_clipped :: "Linear \<Rightarrow> bool" where
  "weights_clipped l = list_all (list_all (\<lambda>x. - 1.98 \<le> x \<and> x \<le> 1.98)) (weight l)"


section \<open>Example inputs\<close>

text \<open>
  A Board768 network with one output per perspective and all weights zero, a batch of one
  position with one active feature per perspective, and an optimizer that adds 5 to every
  weight and keeps the target it was given as its state. The theorems below are
  instantiated with them.
\<close>

definition ex_net :: network where
  "ex_net = PerspectiveNet \<lparr>weight = [replicate 768 0], bias = [0]\<rparr>
              \<lparr>weight = [[0, 0]], bias = [0]\<rparr>"

definition ex_batch :: Batch where
  "ex_batch = \<lparr>size_b = 1, stm_indices = [0, 5], nstm_indices = [0, 7], values_b = [1],
               cp = [0], wdl = [1]\<rparr>"

definition ex_cfg :: train_cfg where
  "ex_cfg = \<lparr>cfg_scheduler = ExponentialLR (1 / 2), cfg_wdl = 0, cfg_scale = 400,
             cfg_epochs = 1, cfg_save_epochs = 1, cfg_train_id = ''run'',
             cfg_train_log = True\<rparr>"

definition ex_opt :: "(real list) optimizer_step" where
  "ex_opt s rate m b target =
     (target, apply_layers (\<lambda>l. l\<lparr>weight := map (map (\<lambda>x. x + 5)) (weight l)\<rparr>) m)"

definition ex_read :: "bool \<Rightarrow> read" where
  "ex_read flag = \<lparr>new_epoch = flag, batch = ex_batch, elapsed = 2, save_error = None,
                   export_error = None\<rparr>"

text \<open>
  A Board768 feature transformer with two outputs whose weight row of feature 5 is
  \<open>(3, 7)\<close>, and a HalfKP main table and factoriser with one output.
\<close>

definition ex_layer :: Linear where
  "ex_layer = \<lparr>weight = [(replicate 768 0)[5 := 3], (replicate 768 0)[5 := 7]], bias = [0, 0]\<rparr>"

definition ex_ft :: Linear where
  "ex_ft = \<lparr>weight = [(replicate 40960 0)[1937 := 2]], bias = [0]\<rparr>"

definition ex_fft :: Linear where
  "ex_fft = \<lparr>weight = [(replicate 640 0)[17 := 10]], bias = [0]\<rparr>"

text \<open>
  A HalfKA network with one output per perspective whose only non-zero parameters are the
  factoriser's bias and the weights of the final layer.
\<close>

definition ex_ka :: network where
  "ex_ka = HalfKANet \<lparr>weight = [replicate 49152 0], bias = [0]\<rparr>
             \<lparr>weight = [replicate 768 0], bias = [1]\<rparr> \<lparr>weight = [[1, 1]], bias = [0]\<rparr>"

text \<open>
  The command line and environment of an example run with an exponential schedule from
  1 to 1/4 over two epochs, the arguments \<open>main\<close> passes to \<open>train\<close> for it, the example
  network after its first clipped step, and the state of the loop after that step.
\<close>

definition ex_args :: args where
  "ex_args = \<lparr>arg_data_root = Some ''data'', arg_train_id = Some ''run'', arg_lr = Some 1,
              arg_lr_end = Some (1 / 4), arg_lr_drop = None, arg_epochs = Some 2,
              arg_batch_size = 16384, arg_wdl = 0, arg_wdl_drop = Some 1, arg_scale = Some 400,
              arg_save_epochs = 100, arg_resume = None\<rparr>"

definition ex_env :: torch_env where
  "ex_env = \<lparr>rand_weight = (\<lambda>name row col. 0), rand_bias = (\<lambda>name row. 0),
             torch_load = (\<lambda>path. Inl RuntimeError)\<rparr>"

definition ex_net_clipped :: network where
  "ex_net_clipped = PerspectiveNet \<lparr>weight = [replicate 768 1.98], bias = [0]\<rparr>
                      \<lparr>weight = [[1.98, 1.98]], bias = [0]\<rparr>"

definition ex_state1 :: "(real list) train_state" where
  "ex_state1 = \<lparr>model = ex_net_clipped, optimizer = [1 / 2], lr = 1, last_epoch = 0,
                running_loss = 0, iterations = 1, loss_since_log = 0, iter_since_log = 1,
                fens = 1, epoch = 0, effects = [OptimizerStep ex_batch]\<rparr>"

definition ex_cfg_exp :: train_cfg where
  "ex_cfg_exp = \<lparr>cfg_scheduler = ExponentialLR ((1 / 4 / 1) powr (1 / real_of_int 2)),
                 cfg_wdl = 0, cfg_scale = 400, cfg_epochs = 2, cfg_save_epochs = 100,
                 cfg_train_id = ''run'', cfg_train_log = True\<rparr>"

section \<open>Auxiliary facts\<close>

lemma bind_err_simps [simp]:
  "bind_err (Inl e) f = Inl e" "bind_err (Inr x) f = f x"
  by (simp_all add: bind_err_def)

subsection \<open>Dense boards and the linear layer\<close>

lemma dot_Nil [simp]: "dot [] x = 0" "dot w [] = 0"
  by (simp_all add: dot_def)

lemma dot_Cons [simp]: "dot (a # w) (b # x) = a * b + dot w x"
  by (simp add: dot_def)

lemma dot_replicate_0 [simp]: "dot w (replicate c 0) = 0"
proof (induction w arbitrary: c)
  case Nil
  then show ?case by simp
next
  case (Cons a w)
  then show ?case by (cases c) auto
qed

lemma dot_update:
  "j < length x \<Longrightarrow> j < length w \<Longrightarrow> dot w (x[j := x ! j + v]) = dot w x + w ! j * v"
proof (induction w arbitrary: x j)
  case Nil
  then show ?case by simp
next
  case (Cons a w)
  then show ?case
    by (cases x; cases j) (auto simp: algebra_simps)
qed

lemma length_scatter_add [simp]: "length (scatter_add m es) = length m"
  by (induction m es rule: scatter_add.induct) auto

lemma length_scatter_add_row [simp]: "length (scatter_add m es ! i) = length (m ! i)"
proof (induction m es rule: scatter_add.induct)
  case (1 m)
  then show ?case by simp
next
  case (2 m i' j v es)
  then show ?case
    by (cases "i' < length m"; cases "i = i'") (auto simp: list_update_beyond)
qed

lemma dot_scatter_add:
  assumes "list_all (\<lambda>((e, f), v). e < length m \<and> f < length w) es"
    and "i < length m" and "list_all (\<lambda>r. length r = length w) m"
  shows "dot w (scatter_add m es ! i)
         = dot w (m ! i) + sum_list (map (\<lambda>((e, f), v). if e = i then w ! f * v else 0) es)"
  using assms
proof (induction m es rule: scatter_add.induct)
  case (1 m)
  then show ?case by simp
next
  case (2 m e f v es)
  let ?m' = "m[e := (m ! e)[f := m ! e ! f + v]]"
  from 2 have e: "e < length m" and f: "f < length w" by auto
  from 2(4) e have len: "length (m ! e) = length w"
    by (simp add: list_all_length)
  have all': "list_all (\<lambda>r. length r = length w) ?m'"
    using 2(4) e len by (auto simp: list_all_length nth_list_update)
  have "dot w (scatter_add ?m' es ! i)
        = dot w (?m' ! i) + sum_list (map (\<lambda>((e, f), v). if e = i then w ! f * v else 0) es)"
    using 2 all' by (intro "2.IH") auto
  moreover have "dot w (?m' ! i) = dot w (m ! i) + (if e = i then w ! f * v else 0)"
    using e f len 2(3) by (auto simp: dot_update)
  ultimately show ?case by simp
qed

lemma rows_scatter_zeros:
  "x \<in> set (scatter_add (zeros r c) es) \<Longrightarrow> length x = c"
  by (auto simp: in_set_conv_nth zeros_def)

lemma Linear_forward_ok:
  "list_all (\<lambda>x. list_all (\<lambda>w. length w = length x) (weight l)) X \<Longrightarrow>
   Linear_forward l X = Inr (map (\<lambda>x. map2 (\<lambda>w b. dot w x + b) (weight l) (bias l)) X)"
  by (auto simp: Linear_forward_def list_ex_iff list_all_iff)

lemma Linear_forward_scatter:
  assumes w: "list_all (\<lambda>w. length w = c) (weight l)"
    and es: "list_all (\<lambda>((e, f), v). e < r \<and> f < c) es"
  shows "Linear_forward l (scatter_add (zeros r c) es) = Inr (gather_sum l r es)"
proof -
  let ?X = "scatter_add (zeros r c) es"
  have ok: "\<not> list_ex (\<lambda>x. list_ex (\<lambda>w. length w \<noteq> length x) (weight l)) ?X"
    using w by (auto simp: list_ex_iff list_all_iff rows_scatter_zeros)
  have row: "map2 (\<lambda>w b. dot w (?X ! i) + b) (weight l) (bias l)
             = map2 (\<lambda>w b. sum_list (map (\<lambda>((e, f), v). if e = i then w ! f * v else 0) es) + b)
                 (weight l) (bias l)" if i: "i < r" for i
  proof (rule map_cong [OF refl])
    fix p assume pin: "p \<in> set (zip (weight l) (bias l))"
    obtain a b where p: "p = (a, b)" by (cases p)
    from pin have a: "a \<in> set (weight l)"
      unfolding p by (rule set_zip_leftD)
    from a w have la: "length a = c" by (simp add: list_all_iff)
    have "dot a (?X ! i) = dot a (zeros r c ! i)
            + sum_list (map (\<lambda>((e, f), v). if e = i then a ! f * v else 0) es)"
      using es i la by (intro dot_scatter_add) (auto simp: zeros_def list_all_iff)
    then show "(case p of (w, b) \<Rightarrow> dot w (?X ! i) + b)
               = (case p of (w, b) \<Rightarrow>
                    sum_list (map (\<lambda>((e, f), v). if e = i then w ! f * v else 0) es) + b)"
      using i by (simp add: p zeros_def)
  qed
  have "map (\<lambda>x. map2 (\<lambda>w b. dot w x + b) (weight l) (bias l)) ?X
        = map (\<lambda>i. map2 (\<lambda>w b. dot w (?X ! i) + b) (weight l) (bias l)) [0..<length ?X]"
    by (rule nth_equalityI) auto
  also have "\<dots> = gather_sum l r es"
    unfolding gather_sum_def using row by (simp add: zeros_def)
  finally show ?thesis
    using ok by (simp add: Linear_forward_def)
qed

subsection \<open>Valid perspectives\<close>

lemma active_in_range:
  "in_range n d idx \<Longrightarrow> list_all (\<lambda>((e, f), v). e < n \<and> f < d) (active idx vals)"
  by (induction idx vals rule: active.induct) auto

lemma pairs_of_in_range:
  "in_range n d idx \<Longrightarrow> length idx = 2 * length vals \<Longrightarrow>
   \<exists>ps. pairs_of idx = Some ps \<and> length ps = length vals
        \<and> \<not> list_ex (\<lambda>i. i < 0 \<or> int n \<le> i) (map fst ps)
        \<and> \<not> list_ex (\<lambda>j. j < 0 \<or> int d \<le> j) (map snd ps)
        \<and> zip (zip (map nat (map fst ps)) (map nat (map snd ps))) vals = active idx vals"
proof (induction idx arbitrary: vals rule: pairs_of.induct)
  case 1
  then show ?case by simp
next
  case (2 x)
  then show ?case by simp
next
  case (3 x y r)
  then obtain v vs where vals: "vals = v # vs" by (cases vals) auto
  with 3 show ?case by fastforce
qed

lemma board_sparse_valid:
  assumes "valid_perspective n d idx vals"
  shows "board_sparse n d idx vals = Inr \<lparr>entries = active idx vals, rows = n, cols = d\<rparr>"
proof -
  from assms have r: "in_range n d idx" and l: "length idx = 2 * length vals"
    by (auto simp: valid_perspective_def)
  from pairs_of_in_range [OF r l] obtain ps where "pairs_of idx = Some ps"
    "length ps = length vals"
    "\<not> list_ex (\<lambda>i. i < 0 \<or> int n \<le> i) (map fst ps)"
    "\<not> list_ex (\<lambda>j. j < 0 \<or> int d \<le> j) (map snd ps)"
    "zip (zip (map nat (map fst ps)) (map nat (map snd ps))) vals = active idx vals"
    by blast
  then show ?thesis
    by (simp add: board_sparse_def reshape_2_def sparse_coo_tensor_def transpose_T_def)
qed

lemma pov_valid:
  assumes "list_all (\<lambda>w. length w = 768) (weight l)" and "valid_perspective n 768 idx vals"
  shows "pov l n idx vals = Inr (gather_sum l n (active idx vals))"
  using assms Linear_forward_scatter [OF assms(1) active_in_range, of n idx vals]
  by (simp add: pov_def board_sparse_valid to_dense_def valid_perspective_def)

subsection \<open>The example run\<close>

lemma ex_batch_fields:
  "size_b ex_batch = 1" "cp ex_batch = [0]" "wdl ex_batch = [1]"
  by (simp_all add: ex_batch_def)

lemma ex_forward: "forward ex_net ex_batch = Inr [1 / 2]"
  by (simp add: ex_net_def ex_batch_def pov_valid valid_perspective_def gather_sum_def
      cat1_def crelu_def clamp_def sigmoid_out_def Linear_forward_ok sigmoid_def)

lemma ex_train_batch:
  "\<exists>st'. train_batch ex_opt ex_cfg ex_batch (train_init ex_net [] 1) = Inr st'"
  by (simp add: train_batch_def train_init_def ex_forward expected_target_def broadcast2_def
      ex_batch_fields mse_def Let_def)

subsection \<open>Clipping and the loop\<close>

lemma weights_clipped_call: "weights_clipped (WeightClipper_call l)"
  by (auto simp: weights_clipped_def WeightClipper_call_def list_all_iff clamp_def)

lemma layers_apply_clipper: "list_all weights_clipped (layers (apply_clipper m))"
  by (cases m) (simp_all add: apply_clipper_def weights_clipped_call)

lemma model_periodic_log [simp]: "model (periodic_log cfg b st) = model st"
  by (simp add: periodic_log_def Let_def)

lemma train_batch_model:
  "train_batch opt cfg b st = Inr st' \<Longrightarrow>
   \<exists>target. model st' = apply_clipper (snd (opt (optimizer st) (lr st) (model st) b target))"
  by (auto simp: train_batch_def bind_err_def Let_def split: sum.splits)

lemma train_batch_clipped:
  "train_batch opt cfg b st = Inr st' \<Longrightarrow> list_all weights_clipped (layers (model st'))"
  using train_batch_model [of opt cfg b st st'] by (auto simp: layers_apply_clipper)

lemma train_iter_clipped:
  assumes "train_iter opt cfg r st = Inr st'"
  shows "list_all weights_clipped (layers (model st'))"
proof -
  from assms obtain st1 st2 where "train_batch opt cfg (batch r) st1 = Inr st2"
    and "st' = periodic_log cfg (batch r) st2"
    by (auto simp: train_iter_def bind_err_def split: sum.splits)
  then show ?thesis
    by (simp add: train_batch_clipped)
qed

lemma train_loop_clipped:
  "train_loop opt cfg st rs = Inr res \<Longrightarrow>
   model (outcome_state res) = model st
   \<or> list_all weights_clipped (layers (model (outcome_state res)))"
proof (induction rs arbitrary: st)
  case Nil
  then show ?case by (auto split: if_splits)
next
  case (Cons r rs)
  show ?case
  proof (cases "epoch st < cfg_epochs cfg")
    case False
    with Cons.prems show ?thesis by auto
  next
    case True
    with Cons.prems obtain st1 where it: "train_iter opt cfg r st = Inr st1"
      and rest: "train_loop opt cfg st1 rs = Inr res"
      by (auto simp: bind_err_def split: sum.splits)
    from Cons.IH [OF rest] train_iter_clipped [OF it] show ?thesis
      by auto
  qed
qed

subsection \<open>The target\<close>

lemma map2_const_snd: "length xs = length ys \<Longrightarrow> map2 (\<lambda>x y. f x) xs ys = map f xs"
  by (induction xs ys rule: list_induct2) auto

lemma map2_const_fst: "length xs = length ys \<Longrightarrow> map2 (\<lambda>x y. y) xs ys = ys"
  by (induction xs ys rule: list_induct2) auto

lemma expected_target_eq:
  "length (cp b) = length (wdl b) \<Longrightarrow>
   expected_target w sc b = Inr (map2 (\<lambda>c y. sigmoid (c / sc) * (1 - w) + y * w) (cp b) (wdl b))"
  by (auto simp: expected_target_def broadcast2_def zip_map_map)

subsection \<open>The weighted row sum\<close>

lemma gather_sum_shape:
  "length (gather_sum l n es) = n"
  "i < n \<Longrightarrow> length (gather_sum l n es ! i) = min (length (weight l)) (length (bias l))"
  by (simp_all add: gather_sum_def)

lemma gather_sum_nth:
  assumes "i < n" and "k < length (weight l)" and "k < length (bias l)"
  shows "gather_sum l n es ! i ! k
         = sum_list (map (\<lambda>((e, f), v). if e = i then weight_row l f ! k * v else 0) es)
           + bias l ! k"
proof -
  have "(\<lambda>((e, f), v). if e = i then weight l ! k ! f * v else 0)
        = (\<lambda>((e, f), v). if e = i then weight_row l f ! k * v else (0::real))"
    using assms(2) by (auto simp: weight_row_def fun_eq_iff)
  then show ?thesis
    using assms by (simp add: gather_sum_def)
qed

lemma pairs_of_folded:
  "in_range n d idx \<Longrightarrow> length idx = 2 * length vals \<Longrightarrow> pairs_of idx = Some ps \<Longrightarrow> 0 < base \<Longrightarrow>
   \<not> list_ex (\<lambda>j. j < 0 \<or> int base \<le> j) (map (\<lambda>f. f mod int base) (map snd ps))
   \<and> zip (zip (map nat (map fst ps)) (map nat (map (\<lambda>f. f mod int base) (map snd ps)))) vals
       = folded base (active idx vals)"
proof (induction idx arbitrary: vals ps rule: pairs_of.induct)
  case 1
  then show ?case by (simp add: folded_def)
next
  case (2 x)
  then show ?case by simp
next
  case (3 x y r)
  then obtain v vs where vals: "vals = v # vs" by (cases vals) auto
  from 3(4) obtain qs where qs: "pairs_of r = Some qs" and ps: "ps = (x, y) # qs"
    by (auto split: option.splits)
  from 3(2,3) vals have r: "in_range n d r" and l: "length r = 2 * length vs" and y: "0 \<le> y"
    by auto
  from "3.IH" [OF r l qs 3(5)] have
    ih1: "\<not> list_ex (\<lambda>j. j < 0 \<or> int base \<le> j) (map (\<lambda>f. f mod int base) (map snd qs))"
    and ih2: "zip (zip (map nat (map fst qs)) (map nat (map (\<lambda>f. f mod int base) (map snd qs)))) vs
       = folded base (active r vs)"
    by blast+
  have "nat (y mod int base) = nat y mod base"
    using y by (simp add: nat_mod_distrib)
  moreover have "0 \<le> y mod int base" "y mod int base < int base"
    using 3(5) by simp_all
  ultimately show ?case
    using ih1 ih2 by (simp add: ps vals folded_def)
qed

lemma v_board_sparse_valid:
  assumes "valid_perspective n d idx vals" and "0 < base"
  shows "v_board_sparse n base idx vals
         = Inr \<lparr>entries = folded base (active idx vals), rows = n, cols = base\<rparr>"
proof -
  from assms have r: "in_range n d idx" and l: "length idx = 2 * length vals"
    by (auto simp: valid_perspective_def)
  from pairs_of_in_range [OF r l] obtain ps where ps: "pairs_of idx = Some ps"
    and "length ps = length vals"
    and "\<not> list_ex (\<lambda>i. i < 0 \<or> int n \<le> i) (map fst ps)"
    by blast
  moreover note pairs_of_folded [OF r l ps assms(2)]
  ultimately show ?thesis
    by (simp add: v_board_sparse_def reshape_2_def sparse_coo_tensor_def transpose_T_def
        v_indices_def)
qed

lemma folded_in_range:
  "0 < base \<Longrightarrow> list_all (\<lambda>((e, f), v). e < n \<and> f < d) es \<Longrightarrow>
   list_all (\<lambda>((e, f), v). e < n \<and> f < base) (folded base es)"
  by (auto simp: folded_def list_all_iff)

lemma bucketed_ft_valid:
  assumes ft: "list_all (\<lambda>w. length w = d) (weight l_ft)"
    and fft: "list_all (\<lambda>w. length w = base) (weight l_fft)"
    and v: "valid_perspective n d idx vals" and base: "0 < base"
  shows "bucketed_ft d base l_ft l_fft n idx vals
         = Inr (mat_add (gather_sum l_ft n (active idx vals))
                  (gather_sum l_fft n (folded base (active idx vals))))"
proof -
  from v have r: "list_all (\<lambda>((e, f), v). e < n \<and> f < d) (active idx vals)"
    by (simp add: valid_perspective_def active_in_range)
  have a: "Linear_forward l_ft (scatter_add (zeros n d) (active idx vals))
           = Inr (gather_sum l_ft n (active idx vals))"
    using ft r by (rule Linear_forward_scatter)
  have b: "Linear_forward l_fft (scatter_add (zeros n base) (folded base (active idx vals)))
           = Inr (gather_sum l_fft n (folded base (active idx vals)))"
    using fft folded_in_range [OF base r] by (rule Linear_forward_scatter)
  show ?thesis
    using a b by (simp add: bucketed_ft_def board_sparse_valid [OF v] v_board_sparse_valid [OF v base]
        Linear_sparse_def to_dense_def)
qed

lemma sum_list_folded:
  "sum_list (map (\<lambda>((e, f), v). if e = i then g f * v else 0) (folded base es))
   = sum_list (map (\<lambda>((e, f), v). if e = i then g (f mod base) * v else (0::real)) es)"
  by (induction es) (auto simp: folded_def)

lemma mat_add_nth:
  "i < length a \<Longrightarrow> i < length b \<Longrightarrow> k < length (a ! i) \<Longrightarrow> k < length (b ! i) \<Longrightarrow>
   mat_add a b ! i ! k = a ! i ! k + b ! i ! k"
  by (simp add: mat_add_def)

lemma mat_add_shape:
  "length (mat_add a b) = min (length a) (length b)"
  "i < length a \<Longrightarrow> i < length b \<Longrightarrow> length (mat_add a b ! i) = min (length (a ! i)) (length (b ! i))"
  by (simp_all add: mat_add_def)

subsection \<open>Folding the factoriser\<close>

lemma pairs_of_length: "pairs_of idx = Some ps \<Longrightarrow> length idx = 2 * length ps"
  by (induction idx arbitrary: ps rule: pairs_of.induct) (auto split: option.splits)

lemma pairs_of_range:
  "pairs_of idx = Some ps \<Longrightarrow>
   \<not> list_ex (\<lambda>i. i < 0 \<or> int n \<le> i) (map fst ps) \<Longrightarrow>
   \<not> list_ex (\<lambda>j. j < 0 \<or> int d \<le> j) (map snd ps) \<Longrightarrow> in_range n d idx"
  by (induction idx arbitrary: ps rule: pairs_of.induct) (auto split: option.splits)

lemma board_sparse_Inr_valid:
  assumes "board_sparse n d idx vals = Inr t"
  shows "valid_perspective n d idx vals"
proof -
  from assms obtain ps where ps: "pairs_of idx = Some ps"
    and t: "sparse_coo_tensor (transpose_T ps) vals (n, d) = Inr t"
    by (auto simp: board_sparse_def reshape_2_def split: if_splits option.splits)
  from t have len: "length ps = length vals"
    and r1: "\<not> list_ex (\<lambda>i. i < 0 \<or> int n \<le> i) (map fst ps)"
    and r2: "\<not> list_ex (\<lambda>j. j < 0 \<or> int d \<le> j) (map snd ps)"
    by (auto simp: sparse_coo_tensor_def transpose_T_def split: if_splits)
  from pairs_of_length [OF ps] len pairs_of_range [OF ps r1 r2] show ?thesis
    by (simp add: valid_perspective_def)
qed

lemma bucketed_ft_Inl:
  "board_sparse n d idx vals = Inl e \<Longrightarrow> bucketed_ft d base l_ft l_fft n idx vals = Inl e"
  by (simp add: bucketed_ft_def)

lemma fold_rows_widths:
  "list_all (\<lambda>w. length w = d) (weight l_ft) \<Longrightarrow>
   list_all (\<lambda>w. length w = d) (weight (fold_rows base l_ft l_fft))"
  by (auto simp: fold_rows_def list_all_iff dest!: set_zip_leftD)

lemma fold_rows_entry:
  "k < length (weight l_ft) \<Longrightarrow> k < length (weight l_fft) \<Longrightarrow> f < length (weight l_ft ! k) \<Longrightarrow>
   weight_row (fold_rows base l_ft l_fft) f ! k
   = weight_row l_ft f ! k + weight_row l_fft (f mod base) ! k"
  by (simp add: fold_rows_def weight_row_def)

lemma zero_layer_entry:
  "k < length (weight l) \<Longrightarrow> f < length (weight l ! k) \<Longrightarrow> weight_row (zero_layer l) f ! k = 0"
  by (simp add: zero_layer_def weight_row_def)

lemma zero_layer_widths:
  "list_all (\<lambda>w. length w = d) (weight l) \<Longrightarrow> list_all (\<lambda>w. length w = d) (weight (zero_layer l))"
  by (simp add: zero_layer_def list_all_iff)

lemma sum_list_fold_rows:
  assumes "list_all (\<lambda>((e, f), v). e < n \<and> f < d) es"
    and "k < length (weight l_ft)" "k < length (weight l_fft)" "length (weight l_ft ! k) = d"
  shows "sum_list (map (\<lambda>((e, f), v).
            if e = i then weight_row (fold_rows base l_ft l_fft) f ! k * v else 0) es)
         = sum_list (map (\<lambda>((e, f), v). if e = i then weight_row l_ft f ! k * v else 0) es)
           + sum_list (map (\<lambda>((e, f), v).
               if e = i then weight_row l_fft (f mod base) ! k * v else 0) es)"
  using assms by (induction es) (auto simp: fold_rows_entry algebra_simps)

lemma sum_list_zero_layer:
  assumes "list_all (\<lambda>((e, f), v). e < n \<and> f < d) es"
    and "k < length (weight l)" "length (weight l ! k) = d"
  shows "sum_list (map (\<lambda>((e, f), v). if e = i then weight_row (zero_layer l) f ! k * v else 0) es)
         = 0"
  using assms by (induction es) (auto simp: zero_layer_entry)


lemma weight_fold_bias [simp]: "weight (fold_bias a b) = weight a"
  by (simp add: fold_bias_def)

lemma weight_row_fold_bias [simp]: "weight_row (fold_bias a b) f = weight_row a f"
  by (simp add: weight_row_def)

lemma length_weight_fold_rows:
  "length (weight (fold_rows base a b)) = min (length (weight a)) (length (weight b))"
  by (simp add: fold_rows_def)

lemma bias_fold_rows [simp]: "bias (fold_rows base a b) = bias a"
  by (simp add: fold_rows_def)

lemma zero_layer_shape [simp]:
  "length (weight (zero_layer l)) = length (weight l)" "length (bias (zero_layer l)) = length (bias l)"
  by (simp_all add: zero_layer_def)

lemma bias_zero_layer: "k < length (bias l) \<Longrightarrow> bias (zero_layer l) ! k = 0"
  by (simp add: zero_layer_def)

lemma bias_fold_bias:
  "length (bias (fold_bias a b)) = min (length (bias a)) (length (bias b))"
  "k < length (bias a) \<Longrightarrow> k < length (bias b) \<Longrightarrow> bias (fold_bias a b) ! k = bias a ! k + bias b ! k"
  by (simp_all add: fold_bias_def)

lemma bucketed_ft_fold:
  assumes ft: "wf_Linear d m l_ft" and fft: "wf_Linear base m l_fft" and base: "0 < base"
  shows "bucketed_ft d base (fold_bias (fold_rows base l_ft l_fft) l_fft) (zero_layer l_fft) n idx vals
         = bucketed_ft d base l_ft l_fft n idx vals"
proof (cases "board_sparse n d idx vals")
  case (Inl e)
  then show ?thesis by (simp add: bucketed_ft_Inl)
next
  case (Inr t)
  then have v: "valid_perspective n d idx vals"
    by (rule board_sparse_Inr_valid)
  let ?F = "fold_bias (fold_rows base l_ft l_fft) l_fft"
  let ?Z = "zero_layer l_fft"
  let ?es = "active idx vals"
  from ft fft have wft: "list_all (\<lambda>w. length w = d) (weight l_ft)"
    and wfft: "list_all (\<lambda>w. length w = base) (weight l_fft)"
    and len: "length (weight l_ft) = m" "length (bias l_ft) = m"
      "length (weight l_fft) = m" "length (bias l_fft) = m"
    by (simp_all add: wf_Linear_def)
  from v have r: "list_all (\<lambda>((e, f), v). e < n \<and> f < d) ?es"
    by (simp add: valid_perspective_def active_in_range)
  have r': "list_all (\<lambda>((e, f), v). e < n \<and> f < base) (folded base ?es)"
    using base r by (rule folded_in_range)
  have lenF: "length (weight ?F) = m" "length (bias ?F) = m"
    using len by (simp_all add: length_weight_fold_rows bias_fold_bias)
  have lhs: "bucketed_ft d base ?F ?Z n idx vals
             = Inr (mat_add (gather_sum ?F n ?es) (gather_sum ?Z n (folded base ?es)))"
    using wft wfft v base
    by (intro bucketed_ft_valid) (simp_all add: fold_rows_widths zero_layer_widths)
  have rhs: "bucketed_ft d base l_ft l_fft n idx vals
             = Inr (mat_add (gather_sum l_ft n ?es) (gather_sum l_fft n (folded base ?es)))"
    using wft wfft v base by (rule bucketed_ft_valid)
  have "mat_add (gather_sum ?F n ?es) (gather_sum ?Z n (folded base ?es))
        = mat_add (gather_sum l_ft n ?es) (gather_sum l_fft n (folded base ?es))"
  proof (rule nth_equalityI)
    show "length (mat_add (gather_sum ?F n ?es) (gather_sum ?Z n (folded base ?es)))
          = length (mat_add (gather_sum l_ft n ?es) (gather_sum l_fft n (folded base ?es)))"
      by (simp add: mat_add_shape gather_sum_shape)
  next
    fix i assume "i < length (mat_add (gather_sum ?F n ?es) (gather_sum ?Z n (folded base ?es)))"
    then have i: "i < n" by (simp add: mat_add_shape gather_sum_shape)
    show "mat_add (gather_sum ?F n ?es) (gather_sum ?Z n (folded base ?es)) ! i
          = mat_add (gather_sum l_ft n ?es) (gather_sum l_fft n (folded base ?es)) ! i"
    proof (rule nth_equalityI)
      show "length (mat_add (gather_sum ?F n ?es) (gather_sum ?Z n (folded base ?es)) ! i)
            = length (mat_add (gather_sum l_ft n ?es) (gather_sum l_fft n (folded base ?es)) ! i)"
        using i len lenF by (simp add: mat_add_shape gather_sum_shape)
    next
      fix k
      assume "k < length (mat_add (gather_sum ?F n ?es) (gather_sum ?Z n (folded base ?es)) ! i)"
      then have k: "k < m"
        using i len lenF by (simp add: mat_add_shape gather_sum_shape)
      from wft k len have wk: "length (weight l_ft ! k) = d"
        by (simp add: list_all_length)
      from wfft k len have vk: "length (weight l_fft ! k) = base"
        by (simp add: list_all_length)
      have a: "gather_sum ?F n ?es ! i ! k
               = sum_list (map (\<lambda>((e, f), v). if e = i then weight_row l_ft f ! k * v else 0) ?es)
                 + sum_list (map (\<lambda>((e, f), v).
                     if e = i then weight_row l_fft (f mod base) ! k * v else 0) ?es)
                 + (bias l_ft ! k + bias l_fft ! k)"
      proof -
        have "gather_sum ?F n ?es ! i ! k
              = sum_list (map (\<lambda>((e, f), v).
                    if e = i then weight_row (fold_rows base l_ft l_fft) f ! k * v else 0) ?es)
                + bias ?F ! k"
          using i k lenF gather_sum_nth [of i n k ?F ?es]
          unfolding weight_row_fold_bias by simp
        then show ?thesis
          using k len r wk
          by (simp add: sum_list_fold_rows [where n = n and d = d] bias_fold_bias)
      qed
      have z: "gather_sum ?Z n (folded base ?es) ! i ! k = 0"
        using i k len r' vk
        by (simp add: gather_sum_nth sum_list_zero_layer [where n = n and d = base]
            bias_zero_layer)
      have b: "gather_sum l_ft n ?es ! i ! k
               = sum_list (map (\<lambda>((e, f), v). if e = i then weight_row l_ft f ! k * v else 0) ?es)
                 + bias l_ft ! k"
        using i k len by (simp add: gather_sum_nth)
      have c: "gather_sum l_fft n (folded base ?es) ! i ! k
               = sum_list (map (\<lambda>((e, f), v).
                     if e = i then weight_row l_fft (f mod base) ! k * v else 0) ?es)
                 + bias l_fft ! k"
        using i k len
        by (simp add: gather_sum_nth sum_list_folded [where g = "\<lambda>f. weight_row l_fft f ! k"])
      show "mat_add (gather_sum ?F n ?es) (gather_sum ?Z n (folded base ?es)) ! i ! k
            = mat_add (gather_sum l_ft n ?es) (gather_sum l_fft n (folded base ?es)) ! i ! k"
        using i k len lenF a z b c by (simp add: mat_add_nth gather_sum_shape)
    qed
  qed
  with lhs rhs show ?thesis by simp
qed

lemma ex_ka_forward: "forward ex_ka ex_batch = Inr [sigmoid 2]"
  by (simp add: ex_ka_def ex_batch_def bucketed_ft_valid valid_perspective_def gather_sum_def
      folded_def mat_add_def cat1_def crelu_def clamp_def sigmoid_out_def Linear_forward_ok)

lemma ex_ka_folded_forward:
  "forward (remove_factoriser (fold_factoriser ex_ka)) ex_batch = Inr [1 / 2]"
  by (simp add: ex_ka_def ex_batch_def bucketed_ft_valid valid_perspective_def gather_sum_def
      folded_def mat_add_def cat1_def crelu_def clamp_def sigmoid_out_def Linear_forward_ok
      fold_rows_def zero_layer_def sigmoid_def)

subsection \<open>Iterations of the loop\<close>

lemma periodic_log_fields [simp]:
  "lr (periodic_log cfg b st) = lr st" "last_epoch (periodic_log cfg b st) = last_epoch st"
  "epoch (periodic_log cfg b st) = epoch st" "iterations (periodic_log cfg b st) = iterations st"
  "fens (periodic_log cfg b st) = fens st" "optimizer (periodic_log cfg b st) = optimizer st"
  by (simp_all add: periodic_log_def Let_def)

lemma periodic_log_effects:
  "\<exists>tail. effects (periodic_log cfg b st) = effects st @ tail \<and> list_all is_progress tail"
  by (simp add: periodic_log_def Let_def)

lemma train_batch_fields:
  assumes "train_batch opt cfg b st = Inr st'"
  shows "lr st' = lr st" "last_epoch st' = last_epoch st" "epoch st' = epoch st"
    "iterations st' = iterations st + 1" "fens st' = fens st + size_b b"
    "effects st' = effects st @ [OptimizerStep b]"
  using assms by (auto simp: train_batch_def bind_err_def Let_def split: sum.splits)

lemma epoch_end_Inr:
  assumes "epoch_end cfg r st = Inr st'"
  shows "iterations st \<noteq> 0" "elapsed r \<noteq> 0" "cfg_save_epochs cfg \<noteq> 0"
    "scheduler_step (cfg_scheduler cfg) (last_epoch st + 1) (lr st) = Inr (lr st')"
    "last_epoch st' = last_epoch st + 1" "epoch st' = epoch st + 1"
    "iterations st' = 0" "fens st' = 0" "model st' = model st" "optimizer st' = optimizer st"
    "effects st' = effects st
       @ [EpochReport (epoch st + 1) (running_loss st / real (iterations st))
            (real (fens st) / elapsed r)]
       @ (if (epoch st + 1) mod cfg_save_epochs cfg = 0
          then [SaveCheckpoint (cfg_train_id cfg) (epoch st + 1) (model st),
                ExportJson (cfg_train_id cfg) (model st)]
          else [])
       @ [SchedulerStep]"
  using assms
  by (auto simp: epoch_end_def save_checkpoint_def bind_err_def Let_def
      split: sum.splits if_splits option.splits)

lemma epoch_end_ok:
  assumes "iterations st \<noteq> 0" "elapsed r \<noteq> 0" "cfg_save_epochs cfg \<noteq> 0"
    "scheduler_step (cfg_scheduler cfg) (last_epoch st + 1) (lr st) = Inr rate"
    "save_error r = None" "export_error r = None"
  shows "\<exists>st'. epoch_end cfg r st = Inr st'"
  using assms by (simp add: epoch_end_def save_checkpoint_def Let_def)

lemma train_batch_ok:
  assumes "forward (model st) b = Inr p" "expected_target (cfg_wdl cfg) (cfg_scale cfg) b = Inr t"
    "mse p t = Inr loss"
  shows "\<exists>st'. train_batch opt cfg b st = Inr st'"
  using assms by (simp add: train_batch_def Let_def)

lemma train_iter_Inr:
  assumes "train_iter opt cfg r st = Inr st'"
  obtains st1 st2 where "if new_epoch r then epoch_end cfg r st = Inr st1 else st1 = st"
    and "train_batch opt cfg (batch r) st1 = Inr st2" and "st' = periodic_log cfg (batch r) st2"
  using assms by (auto simp: train_iter_def bind_err_def split: sum.splits if_splits)

lemma epoch_report_raises:
  "new_epoch r \<Longrightarrow> iterations st = 0 \<or> elapsed r = 0 \<or> cfg_save_epochs cfg = 0 \<Longrightarrow>
   train_iter opt cfg r st = Inl ZeroDivisionError"
  by (auto simp: train_iter_def epoch_end_def Let_def)

lemma checkpoint_write_raises:
  "new_epoch r \<Longrightarrow> iterations st \<noteq> 0 \<Longrightarrow> elapsed r \<noteq> 0 \<Longrightarrow> cfg_save_epochs cfg \<noteq> 0 \<Longrightarrow>
   (epoch st + 1) mod cfg_save_epochs cfg = 0 \<Longrightarrow> save_error r = Some x \<Longrightarrow>
   train_iter opt cfg r st = Inl x"
  by (simp add: train_iter_def epoch_end_def save_checkpoint_def Let_def)

lemma root_power:
  assumes "0 < x" and "0 < n"
  shows "(x powr (1 / real_of_int n)) ^ nat n = x"
proof -
  have pos: "0 < x powr (1 / real_of_int n)"
    using assms by simp
  have "(x powr (1 / real_of_int n)) ^ nat n = (x powr (1 / real_of_int n)) powr real (nat n)"
    by (rule powr_realpow [OF pos, symmetric])
  also have "\<dots> = x powr (1 / real_of_int n * real (nat n))"
    by (rule powr_powr)
  also have "1 / real_of_int n * real (nat n) = 1"
    using assms by simp
  finally show ?thesis
    using assms by simp
qed

lemma train_iter_fields:
  assumes "train_iter opt cfg r st = Inr st'"
  shows "epoch st' = epoch st + (if new_epoch r then 1 else 0)"
    and "last_epoch st' = last_epoch st + (if new_epoch r then 1 else 0)"
    and "new_epoch r \<Longrightarrow>
         scheduler_step (cfg_scheduler cfg) (last_epoch st + 1) (lr st) = Inr (lr st')"
    and "\<not> new_epoch r \<Longrightarrow> lr st' = lr st"
proof -
  from assms obtain st1 st2
    where e: "if new_epoch r then epoch_end cfg r st = Inr st1 else st1 = st"
      and b: "train_batch opt cfg (batch r) st1 = Inr st2"
      and l: "st' = periodic_log cfg (batch r) st2"
    by (rule train_iter_Inr)
  note tb = train_batch_fields [OF b]
  have all: "epoch st' = epoch st + (if new_epoch r then 1 else 0)
     \<and> last_epoch st' = last_epoch st + (if new_epoch r then 1 else 0)
     \<and> (new_epoch r \<longrightarrow>
         scheduler_step (cfg_scheduler cfg) (last_epoch st + 1) (lr st) = Inr (lr st'))
     \<and> (\<not> new_epoch r \<longrightarrow> lr st' = lr st)"
  proof (cases "new_epoch r")
    case True
    with e have e': "epoch_end cfg r st = Inr st1" by simp
    from epoch_end_Inr(4,5,6) [OF e'] tb True show ?thesis
      by (simp add: l)
  next
    case False
    with e tb show ?thesis by (simp add: l)
  qed
  from all show "epoch st' = epoch st + (if new_epoch r then 1 else 0)"
    and "last_epoch st' = last_epoch st + (if new_epoch r then 1 else 0)"
    and "new_epoch r \<Longrightarrow>
         scheduler_step (cfg_scheduler cfg) (last_epoch st + 1) (lr st) = Inr (lr st')"
    and "\<not> new_epoch r \<Longrightarrow> lr st' = lr st"
    by blast+
qed

lemma train_loop_exponential:
  assumes "cfg_scheduler cfg = ExponentialLR g"
    and "train_loop opt cfg st rs = Inr res"
    and "int (last_epoch st) = epoch st" and "lr st = s * g ^ last_epoch st"
    and "epoch st \<le> cfg_epochs cfg"
  shows "int (last_epoch (outcome_state res)) = epoch (outcome_state res)
         \<and> lr (outcome_state res) = s * g ^ last_epoch (outcome_state res)
         \<and> epoch (outcome_state res) \<le> cfg_epochs cfg
         \<and> (\<forall>st'. res = Finished st' \<longrightarrow> epoch st' = cfg_epochs cfg)"
  using assms(2-)
proof (induction rs arbitrary: st)
  case Nil
  then show ?case by (auto split: if_splits)
next
  case (Cons r rs)
  show ?case
  proof (cases "epoch st < cfg_epochs cfg")
    case False
    with Cons.prems show ?thesis by auto
  next
    case True
    with Cons.prems(1) obtain st1 where it: "train_iter opt cfg r st = Inr st1"
      and rest: "train_loop opt cfg st1 rs = Inr res"
      by (auto simp: bind_err_def split: sum.splits)
    note f = train_iter_fields [OF it]
    have a: "int (last_epoch st1) = epoch st1"
      using f(1,2) Cons.prems(2) by simp
    have b: "lr st1 = s * g ^ last_epoch st1"
      using f(2,3,4) Cons.prems(3) assms(1) by (cases "new_epoch r") (auto simp: algebra_simps)
    have c: "epoch st1 \<le> cfg_epochs cfg"
      using f(1) True by simp
    from Cons.IH [OF rest a b c] show ?thesis .
  qed
qed

lemma train_iter_ok:
  assumes "new_epoch r \<Longrightarrow> iterations st \<noteq> 0 \<and> elapsed r \<noteq> 0 \<and> cfg_save_epochs cfg \<noteq> 0
             \<and> scheduler_step (cfg_scheduler cfg) (last_epoch st + 1) (lr st) = Inr rate
             \<and> save_error r = None \<and> export_error r = None"
    and "forward (model st) (batch r) = Inr p"
    and "expected_target (cfg_wdl cfg) (cfg_scale cfg) (batch r) = Inr t"
    and "mse p t = Inr loss"
  shows "\<exists>st'. train_iter opt cfg r st = Inr st'"
proof (cases "new_epoch r")
  case True
  with assms(1) have "\<exists>st1. epoch_end cfg r st = Inr st1"
    by (intro epoch_end_ok) auto
  then obtain st1 where e: "epoch_end cfg r st = Inr st1" ..
  from epoch_end_Inr(9) [OF e] assms(2) have "forward (model st1) (batch r) = Inr p" by simp
  from train_batch_ok [OF this assms(3,4)] obtain st2
    where "train_batch opt cfg (batch r) st1 = Inr st2" ..
  with e True show ?thesis
    by (simp add: train_iter_def)
next
  case False
  from train_batch_ok [OF assms(2,3,4)] obtain st2
    where "train_batch opt cfg (batch r) st = Inr st2" ..
  with False show ?thesis
    by (simp add: train_iter_def)
qed

lemma train_iter_model:
  assumes "train_iter opt cfg r st = Inr st'"
  shows "\<exists>s rate target. model st' = apply_clipper (snd (opt s rate (model st) (batch r) target))"
    and "iterations st' = (if new_epoch r then 0 else iterations st) + 1"
proof -
  from assms obtain st1 st2
    where e: "if new_epoch r then epoch_end cfg r st = Inr st1 else st1 = st"
      and b: "train_batch opt cfg (batch r) st1 = Inr st2"
      and l: "st' = periodic_log cfg (batch r) st2"
    by (rule train_iter_Inr)
  have m: "model st1 = model st" and i: "iterations st1 = (if new_epoch r then 0 else iterations st)"
    using e by (auto split: if_splits dest: epoch_end_Inr(7,9))
  from train_batch_model [OF b] m
  show "\<exists>s rate target. model st' = apply_clipper (snd (opt s rate (model st) (batch r) target))"
    by (auto simp: l)
  from train_batch_fields(4) [OF b] i
  show "iterations st' = (if new_epoch r then 0 else iterations st) + 1"
    by (simp add: l)
qed

lemma ex_forward_clipped: "forward ex_net_clipped ex_batch = Inr [sigmoid (99 / 25)]"
  by (simp add: ex_net_clipped_def ex_batch_def pov_valid valid_perspective_def gather_sum_def
      cat1_def crelu_def clamp_def sigmoid_out_def Linear_forward_ok)

lemma ex_opt_clipped:
  "m = ex_net \<or> m = ex_net_clipped \<Longrightarrow> apply_clipper (snd (ex_opt s rate m b t)) = ex_net_clipped"
  by (auto simp: ex_opt_def ex_net_def ex_net_clipped_def apply_clipper_def WeightClipper_call_def
      clamp_def)

lemma ex_iter:
  assumes m: "model st = ex_net \<or> model st = ex_net_clipped"
    and i: "flag \<longrightarrow> iterations st \<noteq> 0"
    and c: "cfg_save_epochs cfg \<noteq> 0" "cfg_scheduler cfg = ExponentialLR g"
  shows "\<exists>st'. train_iter ex_opt cfg (ex_read flag) st = Inr st' \<and> model st' = ex_net_clipped
           \<and> iterations st' \<noteq> 0"
proof -
  from m have "\<exists>p. forward (model st) ex_batch = Inr [p]"
    using ex_forward ex_forward_clipped by metis
  then obtain p where p: "forward (model st) ex_batch = Inr [p]" ..
  have t: "expected_target (cfg_wdl cfg) (cfg_scale cfg) ex_batch
           = Inr [sigmoid (0 / cfg_scale cfg) * (1 - cfg_wdl cfg) + 1 * cfg_wdl cfg]"
    by (simp add: expected_target_def broadcast2_def ex_batch_fields)
  have l: "\<exists>loss. mse [p] [sigmoid (0 / cfg_scale cfg) * (1 - cfg_wdl cfg) + 1 * cfg_wdl cfg]
           = Inr loss"
    by (simp add: mse_def broadcast2_def)
  then obtain loss
    where l: "mse [p] [sigmoid (0 / cfg_scale cfg) * (1 - cfg_wdl cfg) + 1 * cfg_wdl cfg] = Inr loss" ..
  have "\<exists>st'. train_iter ex_opt cfg (ex_read flag) st = Inr st'"
  proof (rule train_iter_ok)
    show "forward (model st) (batch (ex_read flag)) = Inr [p]"
      using p by (simp add: ex_read_def)
    show "expected_target (cfg_wdl cfg) (cfg_scale cfg) (batch (ex_read flag))
           = Inr [sigmoid (0 / cfg_scale cfg) * (1 - cfg_wdl cfg) + 1 * cfg_wdl cfg]"
      using t by (simp add: ex_read_def)
    show "mse [p] [sigmoid (0 / cfg_scale cfg) * (1 - cfg_wdl cfg) + 1 * cfg_wdl cfg] = Inr loss"
      by (rule l)
    show "iterations st \<noteq> 0 \<and> elapsed (ex_read flag) \<noteq> 0 \<and> cfg_save_epochs cfg \<noteq> 0
          \<and> scheduler_step (cfg_scheduler cfg) (last_epoch st + 1) (lr st) = Inr (lr st * g)
          \<and> save_error (ex_read flag) = None \<and> export_error (ex_read flag) = None"
      if "new_epoch (ex_read flag)"
      using that i c by (simp add: ex_read_def)
  qed
  then obtain st' where st': "train_iter ex_opt cfg (ex_read flag) st = Inr st'" ..
  from train_iter_model [OF st'] m have "model st' = ex_net_clipped" "iterations st' \<noteq> 0"
    by (auto simp: ex_opt_clipped)
  with st' show ?thesis by blast
qed

lemma ex_first_iteration:
  "train_iter ex_opt ex_cfg (ex_read False) (train_init ex_net [] 1) = Inr ex_state1"
proof -
  have step: "train_batch ex_opt ex_cfg ex_batch (train_init ex_net [] 1) = Inr ex_state1"
    by (simp add: train_batch_def train_init_def ex_forward expected_target_def broadcast2_def
        ex_batch_fields mse_def Let_def ex_opt_clipped ex_state1_def)
      (simp add: ex_cfg_def sigmoid_def ex_opt_def)
  have log: "periodic_log ex_cfg ex_batch ex_state1 = ex_state1"
    by (simp add: periodic_log_def LOG_ITERS_def ex_batch_fields ex_state1_def)
  show ?thesis
    using step log by (simp add: train_iter_def ex_read_def)
qed

lemma ex_run:
  "\<exists>st. train ex_opt ex_net [] 1 ex_cfg_exp [ex_read False, ex_read True, ex_read True]
        = Inr (Finished st)"
proof -
  let ?g = "(1 / 4 / 1) powr (1 / real_of_int 2)"
  have c: "cfg_save_epochs ex_cfg_exp \<noteq> 0" "cfg_scheduler ex_cfg_exp = ExponentialLR ?g"
    "cfg_epochs ex_cfg_exp = 2"
    by (simp_all add: ex_cfg_exp_def)
  let ?st0 = "train_init ex_net [] 1 :: (real list) train_state"
  have "model ?st0 = ex_net \<or> model ?st0 = ex_net_clipped" "False \<longrightarrow> iterations ?st0 \<noteq> 0"
    by (simp_all add: train_init_def)
  from ex_iter [OF this c(1,2)] obtain st1
    where 1: "train_iter ex_opt ex_cfg_exp (ex_read False) ?st0 = Inr st1"
      "model st1 = ex_net_clipped" "iterations st1 \<noteq> 0"
    by blast
  from ex_iter [of st1 True, OF _ _ c(1,2)] 1 obtain st2
    where 2: "train_iter ex_opt ex_cfg_exp (ex_read True) st1 = Inr st2"
      "model st2 = ex_net_clipped" "iterations st2 \<noteq> 0"
    by blast
  from ex_iter [of st2 True, OF _ _ c(1,2)] 2 obtain st3
    where 3: "train_iter ex_opt ex_cfg_exp (ex_read True) st2 = Inr st3"
    by blast
  have e0: "epoch ?st0 = 0" by (simp add: train_init_def)
  from train_iter_fields(1) [OF 1(1)] e0 have e1: "epoch st1 = 0" by (simp add: ex_read_def)
  from train_iter_fields(1) [OF 2(1)] e1 have e2: "epoch st2 = 1" by (simp add: ex_read_def)
  from train_iter_fields(1) [OF 3] e2 have e3: "epoch st3 = 2" by (simp add: ex_read_def)
  show ?thesis
    using 1(1) 2(1) 3 e0 e1 e2 e3 c(3) by (simp add: train_def)
qed

lemma ex_read_fields [simp]:
  "new_epoch (ex_read flag) = flag" "batch (ex_read flag) = ex_batch" "elapsed (ex_read flag) = 2"
  by (simp_all add: ex_read_def)

lemma Linear_new_wf: "wf_Linear n_in n_out (Linear_new env name n_in n_out)"
  by (simp add: wf_Linear_def Linear_new_def list_all_iff)

lemma same_shape_wf: "same_shape l' l \<Longrightarrow> wf_Linear n_in n_out l \<Longrightarrow> wf_Linear n_in n_out l'"
proof -
  assume s: "same_shape l' l" and w: "wf_Linear n_in n_out l"
  from s have m: "map length (weight l') = map length (weight l)" and b: "length (bias l') = length (bias l)"
    by (simp_all add: same_shape_def)
  from m have "length (weight l') = length (weight l)"
    by (rule map_eq_imp_length_eq)
  moreover have "list_all (\<lambda>w. length w = n_in) (weight l')"
  proof -
    from w have "list_all (\<lambda>k. k = n_in) (map length (weight l))"
      by (simp add: wf_Linear_def list_all_iff)
    with m have "list_all (\<lambda>k. k = n_in) (map length (weight l'))" by simp
    then show ?thesis by (simp add: list_all_iff)
  qed
  ultimately show ?thesis
    using w b by (simp add: wf_Linear_def)
qed

lemma sd_get_wf: "sd_get sd name l = Inr l' \<Longrightarrow> wf_Linear n_in n_out l \<Longrightarrow> wf_Linear n_in n_out l'"
  by (auto simp: sd_get_def split: option.splits if_splits intro: same_shape_wf)

lemma main_setup_model:
  assumes "main_setup a env = Inr su"
  shows "\<exists>p l_out. s_model su = SquaredPerspectiveNet p l_out \<and> wf_Linear 768 768 p
           \<and> wf_Linear 1536 1 l_out"
    and "s_feature_set su = input_feature_set (s_model su)"
proof -
  let ?new = "SquaredPerspectiveNet_new env 768"
  have new: "\<exists>p l_out. ?new = SquaredPerspectiveNet p l_out \<and> wf_Linear 768 768 p
               \<and> wf_Linear 1536 1 l_out"
    using Linear_new_wf [of 768 768 env "''perspective''"] Linear_new_wf [of 1536 1 env "''out''"]
    by (simp add: SquaredPerspectiveNet_new_def)
  have loaded: "\<exists>p l_out. m = SquaredPerspectiveNet p l_out \<and> wf_Linear 768 768 p
               \<and> wf_Linear 1536 1 l_out" if "load_state_dict ?new sd = Inr m" for sd m
  proof -
    from new obtain p l_out where n: "?new = SquaredPerspectiveNet p l_out"
      and w: "wf_Linear 768 768 p" "wf_Linear 1536 1 l_out" by blast
    from that obtain p' o' where "sd_get sd ''perspective'' p = Inr p'"
      "sd_get sd ''out'' l_out = Inr o'" "m = SquaredPerspectiveNet p' o'"
      unfolding n by (auto simp: bind_err_def split: if_splits sum.splits)
    with w show ?thesis by (auto dest: sd_get_wf)
  qed
  from assms have fs: "s_feature_set su = input_feature_set (s_model su)"
    and src: "s_model su = ?new \<or> (\<exists>sd. load_state_dict ?new sd = Inr (s_model su))"
    by (auto simp: main_setup_def bind_err_def split: option.splits sum.splits if_splits)
  from src new loaded
  show "\<exists>p l_out. s_model su = SquaredPerspectiveNet p l_out \<and> wf_Linear 768 768 p
           \<and> wf_Linear 1536 1 l_out"
    by metis
  from fs show "s_feature_set su = input_feature_set (s_model su)" .
qed

lemma input_feature_set_new [simp]: "input_feature_set (SquaredPerspectiveNet_new env n) = BOARD_768"
  by (simp add: SquaredPerspectiveNet_new_def)

lemma ex_main_setup:
  "main_setup ex_args ex_env
   = Inr \<lparr>s_model = SquaredPerspectiveNet_new ex_env 768, s_feature_set = BOARD_768,
          s_batch_size = 16384, s_lr = 1, s_cfg = ex_cfg_exp\<rparr>"
  by (simp add: main_setup_def ex_args_def choose_scheduler_def exponential_gamma_def py_root_def
      ex_cfg_exp_def)

section \<open>The claims\<close>

text \<open>
  C1. Under BOARD_768, for a layer of shape (m, 768) and a valid perspective of a batch of
  \<open>n\<close> examples, the feature transformer returns a dense matrix of \<open>n\<close> rows of \<open>m\<close> entries;
  row \<open>i\<close> is the sum, over the features active in example \<open>i\<close>, of the feature's weight
  row times its value, plus the bias, added once. For one example whose only active
  feature is 5 with value 1, two outputs and zero bias, the output is weight row 5.
\<close>

theorem feature_transformer_row_sum:
  assumes "wf_Linear 768 m l" and "valid_perspective n 768 idx vals"
  shows "(\<exists>Y. pov l n idx vals = Inr Y \<and> length Y = n
           \<and> (\<forall>i<n. length (Y ! i) = m
                \<and> (\<forall>k<m. Y ! i ! k
                      = sum_list (map (\<lambda>((e, f), v). if e = i then weight_row l f ! k * v else 0)
                          (active idx vals))
                        + bias l ! k)))
         \<and> (m = 2 \<and> bias l = [0, 0] \<longrightarrow> pov l 1 [0, 5] [1] = Inr [weight_row l 5])"
proof -
  from assms(1) have w: "list_all (\<lambda>w. length w = 768) (weight l)"
    and lw: "length (weight l) = m" and lb: "length (bias l) = m"
    by (simp_all add: wf_Linear_def)
  have "pov l n idx vals = Inr (gather_sum l n (active idx vals))"
    using w assms(2) by (rule pov_valid)
  then have general: "\<exists>Y. pov l n idx vals = Inr Y \<and> length Y = n
           \<and> (\<forall>i<n. length (Y ! i) = m
                \<and> (\<forall>k<m. Y ! i ! k
                      = sum_list (map (\<lambda>((e, f), v). if e = i then weight_row l f ! k * v else 0)
                          (active idx vals))
                        + bias l ! k))"
    using lw lb by (simp add: gather_sum_shape gather_sum_nth)
  have scenario: "pov l 1 [0, 5] [1] = Inr [weight_row l 5]" if "m = 2" "bias l = [0, 0]"
  proof -
    from lw that obtain a b where ab: "weight l = [a, b]"
      by (cases "weight l"; cases "tl (weight l)") auto
    have "pov l 1 [0, 5] [1] = Inr (gather_sum l 1 (active [0, 5] [1]))"
      using w by (intro pov_valid) (simp_all add: valid_perspective_def)
    then show ?thesis
      using that ab by (simp add: gather_sum_def weight_row_def)
  qed
  from general scenario show ?thesis by blast
qed

theorem feature_transformer_row_sum_witness:
  "wf_Linear 768 2 ex_layer \<and> valid_perspective 1 768 [0, 5] [1] \<and> bias ex_layer = [0, 0]
   \<and> pov ex_layer 1 [0, 5] [1] = Inr [[3, 7]]"
proof -
  have wf: "wf_Linear 768 2 ex_layer"
    by (simp add: wf_Linear_def ex_layer_def)
  have v: "valid_perspective 1 768 [0, 5] [1]"
    by (simp add: valid_perspective_def)
  have row: "weight_row ex_layer 5 = [3, 7]" and b: "bias ex_layer = [0, 0]"
    by (simp_all add: weight_row_def ex_layer_def)
  from feature_transformer_row_sum [OF wf v] row b wf v show ?thesis
    by simp
qed

text \<open>
  C2. Under HALF_KP (input dimension 40960, base 640) and HALF_KA (49152, base 768), for
  layers of the declared shapes and a valid perspective, the output of a perspective is
  the main table's row sum at the feature indices plus the factoriser's row sum at the
  feature indices modulo the base, each with its bias. The factoriser index of
  \<open>bucket * base + r\<close> is \<open>r\<close> for every bucket; for HALF_KP, bucket 3 and base index 17
  give 17.
\<close>

theorem factoriser_lookup:
  assumes "(d, base) = (40960, 640) \<or> (d, base) = (49152, 768)"
    and "wf_Linear d m l_ft" and "wf_Linear base m l_fft"
    and "valid_perspective n d idx vals"
  shows "(\<exists>Y. bucketed_ft d base l_ft l_fft n idx vals = Inr Y \<and> length Y = n
           \<and> (\<forall>i<n. length (Y ! i) = m
                \<and> (\<forall>k<m. Y ! i ! k
                     = (sum_list (map (\<lambda>((e, f), v). if e = i then weight_row l_ft f ! k * v else 0)
                          (active idx vals)) + bias l_ft ! k)
                       + (sum_list (map (\<lambda>((e, f), v).
                            if e = i then weight_row l_fft (f mod base) ! k * v else 0)
                          (active idx vals)) + bias l_fft ! k))))
         \<and> v_indices 640 ([e], [3 * 640 + 17]) = ([e], [17])
         \<and> (0 \<le> r \<and> r < int base \<longrightarrow>
              v_indices (int base) ([e], [bucket * int base + r]) = ([e], [r]))"
proof -
  from assms(1) have base: "0 < base" by auto
  from assms(2,3) have ft: "list_all (\<lambda>w. length w = d) (weight l_ft)"
    and fft: "list_all (\<lambda>w. length w = base) (weight l_fft)"
    and len: "length (weight l_ft) = m" "length (bias l_ft) = m"
      "length (weight l_fft) = m" "length (bias l_fft) = m"
    by (simp_all add: wf_Linear_def)
  let ?A = "gather_sum l_ft n (active idx vals)"
  let ?B = "gather_sum l_fft n (folded base (active idx vals))"
  have eq: "bucketed_ft d base l_ft l_fft n idx vals = Inr (mat_add ?A ?B)"
    using ft fft assms(4) base by (rule bucketed_ft_valid)
  have entry: "mat_add ?A ?B ! i ! k
      = (sum_list (map (\<lambda>((e, f), v). if e = i then weight_row l_ft f ! k * v else 0)
            (active idx vals)) + bias l_ft ! k)
        + (sum_list (map (\<lambda>((e, f), v). if e = i then weight_row l_fft (f mod base) ! k * v else 0)
            (active idx vals)) + bias l_fft ! k)" if "i < n" "k < m" for i k
    using that len
    by (simp add: mat_add_nth gather_sum_shape gather_sum_nth
        sum_list_folded [where g = "\<lambda>f. weight_row l_fft f ! k"])
  have shape: "length (mat_add ?A ?B) = n" "\<And>i. i < n \<Longrightarrow> length (mat_add ?A ?B ! i) = m"
    using len by (simp_all add: mat_add_shape gather_sum_shape)
  have idx: "v_indices (int base) ([e], [bucket * int base + r]) = ([e], [r])"
    if "0 \<le> r" "r < int base"
    using that by (simp add: v_indices_def)
  show ?thesis
    using eq entry shape idx by (simp add: v_indices_def)
qed


theorem factoriser_lookup_witness:
  "((40960 :: nat, 640 :: nat) = (40960, 640) \<or> (40960 :: nat, 640 :: nat) = (49152, 768))
   \<and> wf_Linear 40960 1 ex_ft \<and> wf_Linear 640 1 ex_fft
   \<and> valid_perspective 1 40960 [0, 3 * 640 + 17] [1]
   \<and> (\<exists>Y. bucketed_ft 40960 640 ex_ft ex_fft 1 [0, 3 * 640 + 17] [1] = Inr Y \<and> Y ! 0 ! 0 = 12)
   \<and> (0 :: int) \<le> 17 \<and> (17 :: int) < int 640
   \<and> v_indices (int 640) ([0], [3 * int 640 + 17]) = ([0], [17])"
proof -
  have a: "wf_Linear 40960 1 ex_ft" and b: "wf_Linear 640 1 ex_fft"
    by (simp_all add: wf_Linear_def ex_ft_def ex_fft_def)
  have v: "valid_perspective 1 40960 [0, 3 * 640 + 17] [1]"
    by (simp add: valid_perspective_def)
  have rows: "weight_row ex_ft 1937 = [2]" "weight_row ex_fft 17 = [10]"
    "bias ex_ft = [0]" "bias ex_fft = [0]"
    by (simp_all add: weight_row_def ex_ft_def ex_fft_def)
  from factoriser_lookup [of 40960 640 1 ex_ft ex_fft 1 "[0, 3 * 640 + 17]" "[1]" 0 17 3, OF _ a b v]
  show ?thesis
    using a b v rows by auto
qed

text \<open>
  C3, as stated, fails: folding adds factoriser rows to main-table rows, and the
  factoriser layer also has a bias, which the fold leaves behind. For the example
  network, whose factoriser bias is 1, the folded network without its factoriser
  returns \<open>sigmoid 0\<close> where the network with both tables returns \<open>sigmoid 2\<close>.
\<close>

theorem fold_without_bias_counterexample:
  "forward (remove_factoriser (fold_factoriser ex_ka)) ex_batch \<noteq> forward ex_ka ex_batch"
  by (simp add: ex_ka_forward ex_ka_folded_forward sigmoid_def field_simps)

text \<open>
  C3, amended. For a HalfKP or HalfKA network whose main table and factoriser have the
  declared shapes, folding the factoriser into the main table, rows and bias, and then
  evaluating with the factoriser removed gives the output of the network with both
  tables, on every batch (a batch that one rejects, the other rejects too).
\<close>

theorem fold_with_bias_preserves_forward:
  assumes "wf_bucketed m net"
  shows "forward (remove_factoriser (fold_factoriser_with_bias net)) b = forward net b"
proof (cases net)
  case (HalfKPNet l_ft l_fft l_out)
  with assms have "wf_Linear 40960 m l_ft" "wf_Linear 640 m l_fft" by simp_all
  then show ?thesis
    by (simp add: HalfKPNet bucketed_ft_fold [where m = m])
next
  case (HalfKANet l_ft l_fft l_out)
  with assms have "wf_Linear 49152 m l_ft" "wf_Linear 768 m l_fft" by simp_all
  then show ?thesis
    by (simp add: HalfKANet bucketed_ft_fold [where m = m])
qed (use assms in simp_all)


theorem fold_with_bias_preserves_forward_witness:
  "wf_bucketed 1 ex_ka
   \<and> forward (remove_factoriser (fold_factoriser_with_bias ex_ka)) ex_batch = Inr [sigmoid 2]"
proof -
  have wf: "wf_bucketed 1 ex_ka"
    by (simp add: ex_ka_def wf_Linear_def)
  from fold_with_bias_preserves_forward [OF wf, of ex_batch] wf show ?thesis
    by (simp add: ex_ka_forward)
qed

text \<open>
  C4. For every batch with one centipawn label and one outcome label per example, and a
  non-zero scale, the training target is
  \<open>sigmoid(cp / scale) * (1 - wdl_weight) + wdl_label * wdl_weight\<close>, entry by entry. With
  \<open>wdl_weight = 0\<close> it is \<open>sigmoid(cp / scale)\<close>; with \<open>wdl_weight = 1\<close> it is the outcome
  label, whatever \<open>cp\<close> is. This is the target the loop hands to the optimizer.
\<close>

theorem target_blending:
  assumes "sc \<noteq> 0" and "length (cp b) = length (wdl b)"
  shows "expected_target w sc b
           = Inr (map2 (\<lambda>c y. sigmoid (c / sc) * (1 - w) + y * w) (cp b) (wdl b))
         \<and> expected_target 0 sc b = Inr (map (\<lambda>c. sigmoid (c / sc)) (cp b))
         \<and> expected_target 1 sc b = Inr (wdl b)
         \<and> (train_batch opt cfg b st = Inr st' \<longrightarrow>
              optimizer st' = fst (opt (optimizer st) (lr st) (model st) b
                (map2 (\<lambda>c y. sigmoid (c / cfg_scale cfg) * (1 - cfg_wdl cfg) + y * cfg_wdl cfg)
                   (cp b) (wdl b))))"
  using assms
  by (auto simp: expected_target_eq map2_const_snd map2_const_fst train_batch_def bind_err_def
      Let_def split: sum.splits)

theorem target_blending_witness:
  "(400 :: real) \<noteq> 0 \<and> length (cp ex_batch) = length (wdl ex_batch)
   \<and> expected_target (1 / 4) 400 ex_batch = Inr [5 / 8]
   \<and> expected_target 0 400 ex_batch = Inr [1 / 2]
   \<and> expected_target 1 400 ex_batch = Inr [1]
   \<and> (\<exists>st'. train_batch ex_opt ex_cfg ex_batch (train_init ex_net [] 1) = Inr st'
           \<and> optimizer st' = [1 / 2])"
proof -
  from ex_train_batch obtain st'
    where st': "train_batch ex_opt ex_cfg ex_batch (train_init ex_net [] 1) = Inr st'" ..
  have len: "length (cp ex_batch) = length (wdl ex_batch)"
    by (simp add: ex_batch_fields)
  from target_blending [of 400 ex_batch "1 / 4" ex_opt ex_cfg "train_init ex_net [] 1" st', OF _ len] st'
  show ?thesis
    by (auto simp: ex_batch_fields sigmoid_def ex_cfg_def ex_opt_def)
qed

text \<open>
  C5. An iteration of the training loop that reaches its optimizer step ends with every
  weight entry of every layer of the network in \<open>[-1.98, 1.98]\<close>, whatever the optimizer
  did: the clipper runs right after the step, and the next forward pass reads the
  network of the state the iteration returns. So after the loop, the network is either
  the one the loop started with (no step was taken) or clipped.
\<close>

theorem weights_clipped_after_step:
  "(train_iter opt cfg r st = Inr st' \<longrightarrow> list_all weights_clipped (layers (model st')))
   \<and> (train_loop opt cfg st rs = Inr res \<longrightarrow>
        model (outcome_state res) = model st
        \<or> list_all weights_clipped (layers (model (outcome_state res))))"
  using train_iter_clipped [of opt cfg r st st'] train_loop_clipped [of opt cfg st rs res]
  by blast

theorem weights_clipped_after_step_witness:
  "train_iter ex_opt ex_cfg (ex_read False) (train_init ex_net [] 1) = Inr ex_state1
   \<and> train_loop ex_opt ex_cfg (train_init ex_net [] 1) [ex_read False] = Inr (Waiting ex_state1)
   \<and> model ex_state1 = ex_net_clipped
   \<and> list_all weights_clipped (layers ex_net_clipped)"
proof -
  have loop: "train_loop ex_opt ex_cfg (train_init ex_net [] 1) [ex_read False]
              = Inr (Waiting ex_state1)"
    using ex_first_iteration by (simp add: train_init_def ex_cfg_def ex_state1_def)
  have m: "model ex_state1 = ex_net_clipped"
    by (simp add: ex_state1_def)
  from weights_clipped_after_step [of ex_opt ex_cfg "ex_read False" "train_init ex_net [] 1"
      ex_state1 "[ex_read False]" "Waiting ex_state1"] ex_first_iteration loop m
  show ?thesis by simp
qed

text \<open>
  C6, as stated, fails: an iteration that reads \<open>new_epoch = true\<close> raises
  ZeroDivisionError in the epoch-end branch, before the scheduler step and before the batch
  is trained on, when the checkpoint interval \<open>save_epochs\<close> is 0 (the test
  \<open>epoch % save_epochs\<close>), and when no batch has been trained since the last boundary, as
  on the first read (the mean loss divides by \<open>iterations\<close>).
\<close>

theorem epoch_end_counterexample:
  "new_epoch (ex_read True)
   \<and> train_iter ex_opt (ex_cfg\<lparr>cfg_save_epochs := 0\<rparr>) (ex_read True) ex_state1
       = Inl ZeroDivisionError
   \<and> train_iter ex_opt ex_cfg (ex_read True) (train_init ex_net [] 1) = Inl ZeroDivisionError"
  by (simp add: train_iter_def epoch_end_def Let_def ex_state1_def train_init_def)

text \<open>
  C6, amended. An iteration that reads \<open>new_epoch = true\<close> and runs to its end without
  raising has reported the epoch's mean loss and throughput, saved the checkpoint and the
  export when \<open>epoch mod save_epochs = 0\<close>, and stepped the scheduler once, in this order,
  before its optimizer step on the batch it read; that batch is the first of the new
  epoch's count.
\<close>

theorem epoch_end_before_training:
  "new_epoch r \<and> train_iter opt cfg r st = Inr st' \<longrightarrow>
     (\<exists>tail. effects st' = effects st
         @ [EpochReport (epoch st + 1) (running_loss st / real (iterations st))
              (real (fens st) / elapsed r)]
         @ (if (epoch st + 1) mod cfg_save_epochs cfg = 0
            then [SaveCheckpoint (cfg_train_id cfg) (epoch st + 1) (model st),
                  ExportJson (cfg_train_id cfg) (model st)]
            else [])
         @ [SchedulerStep, OptimizerStep (batch r)] @ tail
       \<and> list_all is_progress tail)
     \<and> epoch st' = epoch st + 1 \<and> last_epoch st' = last_epoch st + 1
     \<and> iterations st' = 1 \<and> fens st' = size_b (batch r)"
proof (intro impI, elim conjE)
  assume new: "new_epoch r" and it: "train_iter opt cfg r st = Inr st'"
  from it new obtain st1 st2 where e: "epoch_end cfg r st = Inr st1"
    and b: "train_batch opt cfg (batch r) st1 = Inr st2"
    and l: "st' = periodic_log cfg (batch r) st2"
    by (auto elim!: train_iter_Inr)
  from periodic_log_effects [of cfg "batch r" st2] obtain tail
    where tail: "effects st' = effects st2 @ tail" "list_all is_progress tail"
    unfolding l by blast
  show "(\<exists>tail. effects st' = effects st
         @ [EpochReport (epoch st + 1) (running_loss st / real (iterations st))
              (real (fens st) / elapsed r)]
         @ (if (epoch st + 1) mod cfg_save_epochs cfg = 0
            then [SaveCheckpoint (cfg_train_id cfg) (epoch st + 1) (model st),
                  ExportJson (cfg_train_id cfg) (model st)]
            else [])
         @ [SchedulerStep, OptimizerStep (batch r)] @ tail
       \<and> list_all is_progress tail)
     \<and> epoch st' = epoch st + 1 \<and> last_epoch st' = last_epoch st + 1
     \<and> iterations st' = 1 \<and> fens st' = size_b (batch r)"
    using tail epoch_end_Inr [OF e] train_batch_fields [OF b] by (simp add: l)
qed

theorem epoch_end_before_training_witness:
  "new_epoch (ex_read True)
   \<and> (\<exists>st' tail. train_iter ex_opt ex_cfg (ex_read True) ex_state1 = Inr st'
         \<and> effects st' = [OptimizerStep ex_batch, EpochReport 1 0 (1 / 2),
               SaveCheckpoint ''run'' 1 ex_net_clipped, ExportJson ''run'' ex_net_clipped,
               SchedulerStep, OptimizerStep ex_batch] @ tail
         \<and> list_all is_progress tail
         \<and> epoch st' = 1 \<and> last_epoch st' = 1 \<and> iterations st' = 1 \<and> fens st' = 1)"
proof -
  have "model ex_state1 = ex_net \<or> model ex_state1 = ex_net_clipped"
    "True \<longrightarrow> iterations ex_state1 \<noteq> 0"
    "cfg_save_epochs ex_cfg \<noteq> 0" "cfg_scheduler ex_cfg = ExponentialLR (1 / 2)"
    by (simp_all add: ex_state1_def ex_cfg_def)
  from ex_iter [OF this] obtain st'
    where st': "train_iter ex_opt ex_cfg (ex_read True) ex_state1 = Inr st'"
    by blast
  from epoch_end_before_training [of "ex_read True" ex_opt ex_cfg ex_state1 st'] st'
  obtain tail where
    "effects st' = effects ex_state1
          @ [EpochReport (epoch ex_state1 + 1) (running_loss ex_state1 / real (iterations ex_state1))
               (real (fens ex_state1) / elapsed (ex_read True))]
          @ (if (epoch ex_state1 + 1) mod cfg_save_epochs ex_cfg = 0
             then [SaveCheckpoint (cfg_train_id ex_cfg) (epoch ex_state1 + 1) (model ex_state1),
                   ExportJson (cfg_train_id ex_cfg) (model ex_state1)]
             else [])
          @ [SchedulerStep, OptimizerStep (batch (ex_read True))] @ tail"
    "list_all is_progress tail"
    "epoch st' = epoch ex_state1 + 1" "last_epoch st' = last_epoch ex_state1 + 1"
    "iterations st' = 1" "fens st' = size_b (batch (ex_read True))"
    by auto
  then have "effects st' = [OptimizerStep ex_batch, EpochReport 1 0 (1 / 2),
               SaveCheckpoint ''run'' 1 ex_net_clipped, ExportJson ''run'' ex_net_clipped,
               SchedulerStep, OptimizerStep ex_batch] @ tail"
    "list_all is_progress tail" "epoch st' = 1" "last_epoch st' = 1" "iterations st' = 1"
    "fens st' = 1"
    by (simp_all add: ex_state1_def ex_cfg_def ex_batch_fields)
  with st' show ?thesis by auto
qed

text \<open>
  C7. With a final learning rate configured, positive start and end rates and a positive
  epoch count \<open>n\<close>, \<open>main\<close> builds \<open>ExponentialLR\<close> with \<open>gamma = (end / start) ^ (1 / n)\<close>
  and hands it to \<open>train\<close> with the start rate and \<open>n\<close>. An iteration steps the scheduler
  once when it reads \<open>new_epoch = true\<close> and not otherwise. When the loop ends, the
  scheduler has been stepped \<open>n\<close> times and the learning rate is the end rate (exactly,
  over the reals).
\<close>

theorem exponential_schedule_reaches_end_lr:
  assumes "0 < s" and "0 < e" and "0 < n"
    and "arg_lr a = Some s" and "arg_lr_end a = Some e" and "arg_epochs a = Some n"
  shows "choose_scheduler a s = Inr (ExponentialLR ((e / s) powr (1 / real_of_int n)))
    \<and> (main_setup a env = Inr su \<longrightarrow>
         cfg_scheduler (s_cfg su) = ExponentialLR ((e / s) powr (1 / real_of_int n))
         \<and> s_lr su = s \<and> cfg_epochs (s_cfg su) = n)
    \<and> (cfg_scheduler cfg = ExponentialLR ((e / s) powr (1 / real_of_int n))
         \<and> train_iter opt cfg r st1 = Inr st2 \<longrightarrow>
         last_epoch st2 = last_epoch st1 + (if new_epoch r then 1 else 0)
         \<and> lr st2 = (if new_epoch r then lr st1 * (e / s) powr (1 / real_of_int n) else lr st1))
    \<and> (cfg_scheduler cfg = ExponentialLR ((e / s) powr (1 / real_of_int n))
         \<and> cfg_epochs cfg = n \<and> train opt m opt_state s cfg reads = Inr (Finished st) \<longrightarrow>
         last_epoch st = nat n \<and> epoch st = n \<and> lr st = e)"
proof -
  let ?g = "(e / s) powr (1 / real_of_int n)"
  have ratio: "0 < e / s" using assms(1,2) by simp
  have sched: "choose_scheduler a s = Inr (ExponentialLR ?g)"
    using assms ratio by (simp add: choose_scheduler_def exponential_gamma_def py_root_def)
  have from_args: "cfg_scheduler (s_cfg su) = ExponentialLR ?g \<and> s_lr su = s \<and> cfg_epochs (s_cfg su) = n"
    if "main_setup a env = Inr su"
    using that assms(4,6) sched
    by (auto simp: main_setup_def bind_err_def split: option.splits sum.splits if_splits)
  have step: "last_epoch st2 = last_epoch st1 + (if new_epoch r then 1 else 0)
         \<and> lr st2 = (if new_epoch r then lr st1 * ?g else lr st1)"
    if "cfg_scheduler cfg = ExponentialLR ?g" "train_iter opt cfg r st1 = Inr st2"
    using train_iter_fields [OF that(2)] that(1) by auto
  have run: "last_epoch st = nat n \<and> epoch st = n \<and> lr st = e"
    if g: "cfg_scheduler cfg = ExponentialLR ?g" and n: "cfg_epochs cfg = n"
      and t: "train opt m opt_state s cfg reads = Inr (Finished st)"
  proof -
    from t have loop: "train_loop opt cfg (train_init m opt_state s) reads = Inr (Finished st)"
      by (simp add: train_def)
    from train_loop_exponential [OF g loop, of s] assms(3) n
    have "int (last_epoch st) = epoch st" "lr st = s * ?g ^ last_epoch st" "epoch st = n"
      by (simp_all add: train_init_def)
    moreover from this have "last_epoch st = nat n" by simp
    ultimately show ?thesis
      using root_power [OF ratio assms(3)] assms(1) by simp
  qed
  from sched from_args step run show ?thesis by blast
qed

theorem exponential_schedule_reaches_end_lr_witness:
  "(0 :: real) < 1 \<and> (0 :: real) < 1 / 4 \<and> (0 :: int) < 2
   \<and> arg_lr ex_args = Some 1 \<and> arg_lr_end ex_args = Some (1 / 4) \<and> arg_epochs ex_args = Some 2
   \<and> choose_scheduler ex_args 1 = Inr (ExponentialLR ((1 / 4 / 1) powr (1 / real_of_int 2)))
   \<and> main_setup ex_args ex_env
       = Inr \<lparr>s_model = SquaredPerspectiveNet_new ex_env 768, s_feature_set = BOARD_768,
              s_batch_size = 16384, s_lr = 1, s_cfg = ex_cfg_exp\<rparr>
   \<and> cfg_scheduler ex_cfg_exp = ExponentialLR ((1 / 4 / 1) powr (1 / real_of_int 2))
   \<and> cfg_epochs ex_cfg_exp = 2
   \<and> (\<exists>st2. train_iter ex_opt ex_cfg_exp (ex_read True) ex_state1 = Inr st2
         \<and> last_epoch st2 = 1 \<and> lr st2 = (1 / 4 / 1) powr (1 / real_of_int 2))
   \<and> (\<exists>st. train ex_opt ex_net [] 1 ex_cfg_exp [ex_read False, ex_read True, ex_read True]
               = Inr (Finished st)
         \<and> last_epoch st = 2 \<and> epoch st = 2 \<and> lr st = 1 / 4)"
proof -
  let ?g = "(1 / 4 / 1) powr (1 / real_of_int 2)"
  have a: "arg_lr ex_args = Some 1" "arg_lr_end ex_args = Some (1 / 4)" "arg_epochs ex_args = Some 2"
    by (simp_all add: ex_args_def)
  have c: "cfg_scheduler ex_cfg_exp = ExponentialLR ?g" "cfg_epochs ex_cfg_exp = 2"
    "cfg_save_epochs ex_cfg_exp \<noteq> 0"
    by (simp_all add: ex_cfg_exp_def)
  have "model ex_state1 = ex_net \<or> model ex_state1 = ex_net_clipped"
    "True \<longrightarrow> iterations ex_state1 \<noteq> 0"
    by (simp_all add: ex_state1_def)
  from ex_iter [OF this c(3,1)] obtain st2
    where st2: "train_iter ex_opt ex_cfg_exp (ex_read True) ex_state1 = Inr st2" by blast
  from ex_run obtain st
    where st: "train ex_opt ex_net [] 1 ex_cfg_exp [ex_read False, ex_read True, ex_read True]
               = Inr (Finished st)" ..
  note inst = exponential_schedule_reaches_end_lr [of 1 "1 / 4" 2 ex_args ex_env
      "\<lparr>s_model = SquaredPerspectiveNet_new ex_env 768, s_feature_set = BOARD_768,
        s_batch_size = 16384, s_lr = 1, s_cfg = ex_cfg_exp\<rparr>"
      ex_cfg_exp ex_opt "ex_read True" ex_state1 st2 ex_net "[]"
      "[ex_read False, ex_read True, ex_read True]" st, OF _ _ _ a]
  have "last_epoch st2 = 1 \<and> lr st2 = ?g" "last_epoch st = 2 \<and> epoch st = 2 \<and> lr st = 1 / 4"
    using inst c st2 st by (simp_all add: ex_state1_def)
  with st2 st a c inst ex_main_setup show ?thesis
    by (simp add: ex_cfg_exp_def)
qed

text \<open>
  C8. The code never reads \<open>--wdl-drop\<close>: what \<open>main\<close> builds and the whole run are the same
  for every value of the option, and the blend weight \<open>train\<close> receives is \<open>--wdl\<close>, which
  the loop never changes.
\<close>

theorem wdl_drop_never_read:
  "main_setup (a\<lparr>arg_wdl_drop := d\<rparr>) env = main_setup a env
   \<and> main opt opt_state (a\<lparr>arg_wdl_drop := d\<rparr>) env reads = main opt opt_state a env reads
   \<and> map_sum id (\<lambda>su. cfg_wdl (s_cfg su)) (main_setup a env)
       = map_sum id (\<lambda>su. arg_wdl a) (main_setup a env)"
proof -
  have 1: "main_setup (a\<lparr>arg_wdl_drop := d\<rparr>) env = main_setup a env"
    by (simp add: main_setup_def choose_scheduler_def cong: option.case_cong if_cong)
  have 2: "map_sum id (\<lambda>su. cfg_wdl (s_cfg su)) (main_setup a env)
       = map_sum id (\<lambda>su. arg_wdl a) (main_setup a env)"
    by (auto simp: main_setup_def bind_err_def split: option.splits sum.splits)
  from 1 2 show ?thesis by (simp add: main_def)
qed

text \<open>
  C9. Whatever the command line and the environment, when \<open>main\<close> reaches the call of
  \<open>train\<close> the network is a \<open>SquaredPerspectiveNet\<close> whose feature transformer has shape
  (768, 768) and whose final layer has shape (1, 1536), and the feature set it declares,
  the one given to the \<open>BatchLoader\<close>, is \<open>BOARD_768\<close>.
\<close>

theorem main_builds_squared_board768:
  "main_setup a env = Inr su \<longrightarrow>
     (\<exists>p l_out. s_model su = SquaredPerspectiveNet p l_out \<and> wf_Linear 768 768 p
        \<and> wf_Linear 1536 1 l_out)
     \<and> input_feature_set (s_model su) = BOARD_768 \<and> s_feature_set su = BOARD_768"
  using main_setup_model [of a env su] by auto

theorem main_builds_squared_board768_witness:
  "main_setup ex_args ex_env
     = Inr \<lparr>s_model = SquaredPerspectiveNet_new ex_env 768, s_feature_set = BOARD_768,
            s_batch_size = 16384, s_lr = 1, s_cfg = ex_cfg_exp\<rparr>
   \<and> (\<exists>p l_out. SquaredPerspectiveNet_new ex_env 768 = SquaredPerspectiveNet p l_out
         \<and> wf_Linear 768 768 p \<and> wf_Linear 1536 1 l_out)
   \<and> input_feature_set (SquaredPerspectiveNet_new ex_env 768) = BOARD_768"
  using main_builds_squared_board768 [of ex_args ex_env
      "\<lparr>s_model = SquaredPerspectiveNet_new ex_env 768, s_feature_set = BOARD_768,
        s_batch_size = 16384, s_lr = 1, s_cfg = ex_cfg_exp\<rparr>"] ex_main_setup
  by simp

text \<open>
  C10. The clipper writes the weight of a layer and nothing else: the bias of the layer
  is the same after the call, so applying the clipper to a network leaves every bias
  vector as it was, inside \<open>[-1.98, 1.98]\<close> or not.
\<close>

theorem clipper_leaves_bias:
  "bias (WeightClipper_call l) = bias l
   \<and> map bias (layers (apply_clipper m)) = map bias (layers m)"
  by (cases m) (simp_all add: apply_clipper_def WeightClipper_call_def)

end
